theory Spec2Isabelle
  imports
    Main
    "HOL-Library.Sublist"
    "HOL-Library.Char_ord"
    "HOL-Library.List_Lexorder"
    "HOL-Library.Multiset"
    "HOL-Library.FSet"
begin

section \<open>Data model\<close>

text \<open>
  The plugin compiles Morphe schema definitions to Pydantic declarations. Strings are Go
  byte strings (\<open>string\<close> is \<open>char list\<close>); \<open>sort.Strings\<close> orders them
  bytewise, which is the lexicographic order on \<open>char list\<close> used by \<open>sort\<close> below.

  Record fields carry a short prefix because Go reuses \<open>Name\<close>, \<open>Type\<close> and
  \<open>Fields\<close> across structs: \<open>fName\<close>/\<open>fType\<close> are \<open>formatdef.Field\<close>,
  \<open>sName\<close>/\<open>sFields\<close> are \<open>formatdef.Struct\<close>, \<open>mName\<close>/\<open>mFields\<close>/\<open>mRelated\<close> are
  \<open>yaml.Model\<close>, \<open>relType\<close>/\<open>relFor\<close>/\<open>relThrough\<close>/\<open>relAliased\<close> are
  \<open>yaml.ModelRelation\<close>.
\<close>

text \<open>
  Modelled from the spec: package \<open>formatdef\<close> (the \<open>Type\<close> interface, \<open>BasicType\<close>,
  \<open>ArrayType\<close>, \<open>TypeString\<close>, \<open>TypeAny\<close>) is not among the sources. The code under
  \<open>src/\<close> only calls \<open>GetName\<close> and asserts \<open>BasicType\<close>; it tests for the prefix
  \<open>List[\<close> to recognise an array. \<open>OtherType\<close> stands for any further implementation of
  the interface, known by its \<open>GetName\<close> alone.
\<close>

datatype Type = BasicType string | ArrayType Type | OtherType string

fun GetName :: "Type \<Rightarrow> string" where
  "GetName (BasicType n) = n"
| "GetName (ArrayType e) = ''List['' @ GetName e @ '']''"
| "GetName (OtherType n) = n"

definition TypeString :: Type where
  "TypeString = BasicType ''str''"

definition TypeAny :: Type where
  "TypeAny = BasicType ''Any''"

record Field =
  fName :: string
  fType :: Type

record Struct =
  sName :: string
  sFields :: "Field list"

text \<open>
  Modelled from the spec: the relation kind is a string of the external library
  \<open>morphe-go\<close>, one of eight: For/Has, One/Many, plain/polymorphic. The predicates of
  \<open>yamlops\<close> read the three components of the name.
\<close>

datatype RelationType =
  ForOne | ForMany | HasOne | HasMany | ForOnePoly | ForManyPoly | HasOnePoly | HasManyPoly

fun IsRelationPoly :: "RelationType \<Rightarrow> bool" where
  "IsRelationPoly ForOnePoly = True"
| "IsRelationPoly ForManyPoly = True"
| "IsRelationPoly HasOnePoly = True"
| "IsRelationPoly HasManyPoly = True"
| "IsRelationPoly _ = False"

fun IsRelationFor :: "RelationType \<Rightarrow> bool" where
  "IsRelationFor ForOne = True"
| "IsRelationFor ForMany = True"
| "IsRelationFor ForOnePoly = True"
| "IsRelationFor ForManyPoly = True"
| "IsRelationFor _ = False"

fun IsRelationOne :: "RelationType \<Rightarrow> bool" where
  "IsRelationOne ForOne = True"
| "IsRelationOne HasOne = True"
| "IsRelationOne ForOnePoly = True"
| "IsRelationOne HasOnePoly = True"
| "IsRelationOne _ = False"

fun IsRelationMany :: "RelationType \<Rightarrow> bool" where
  "IsRelationMany r = (\<not> IsRelationOne r)"

text \<open>
  Modelled from the spec: \<open>yamlops.GetRelationTargetName\<close> (external): the alias if
  present, else the relation name itself.
\<close>

definition GetRelationTargetName :: "string \<Rightarrow> string \<Rightarrow> string" where
  "GetRelationTargetName relatedName aliased = (if aliased \<noteq> [] then aliased else relatedName)"

record ModelField =
  mfType :: string

record ModelRelation =
  relType :: RelationType
  relFor :: "string list"
  relThrough :: string
  relAliased :: string

text \<open>
  A Go map is an association list with distinct keys, listed in the order in which one
  \<open>range\<close> loop happens to visit it; any permutation is a possible order.
\<close>

record Model =
  mName :: string
  mFields :: "(string \<times> ModelField) list"
  mRelated :: "(string \<times> ModelRelation) list"

record Registry =
  regModels :: "(string \<times> Model) list"
  regEnums :: "string list"
  regStructures :: "string list"
  regEntities :: "string list"

definition GetAllModels :: "Registry \<Rightarrow> (string \<times> Model) list" where
  "GetAllModels r = regModels r"

text \<open>
  The functions of this repository that the sources call but do not contain are
  parameters: \<open>formatdef.ToCamelCase\<close>, \<open>formatdef.ToSnakeCase\<close>,
  \<open>SanitizePythonIdentifier\<close>, \<open>typemap.GetFieldType\<close>, \<open>extractInnerType\<close> and
  \<open>resolveFieldType\<close>. Every universally stated theorem holds for all of them.
\<close>

record helpers =
  ToCamelCase :: "string \<Rightarrow> string"
  ToSnakeCase :: "string \<Rightarrow> string"
  SanitizePythonIdentifier :: "string \<Rightarrow> string"
  GetFieldType :: "string \<Rightarrow> Type"
  extractInnerType :: "string \<Rightarrow> string"
  resolveFieldType :: "string \<Rightarrow> Registry \<Rightarrow> string"

section \<open>Go string functions\<close>

definition HasPrefix :: "string \<Rightarrow> string \<Rightarrow> bool" where
  "HasPrefix s p = prefix p s"

definition HasSuffix :: "string \<Rightarrow> string \<Rightarrow> bool" where
  "HasSuffix s p = suffix p s"

fun Contains :: "string \<Rightarrow> string \<Rightarrow> bool" where
  "Contains [] sub = (sub = [])"
| "Contains (c # cs) sub = (prefix sub (c # cs) \<or> Contains cs sub)"

definition TrimPrefix :: "string \<Rightarrow> string \<Rightarrow> string" where
  "TrimPrefix s p = (if prefix p s then drop (length p) s else s)"

definition TrimSuffix :: "string \<Rightarrow> string \<Rightarrow> string" where
  "TrimSuffix s p = (if suffix p s then take (length s - length p) s else s)"

fun Join :: "string list \<Rightarrow> string \<Rightarrow> string" where
  "Join [] sep = []"
| "Join [x] sep = x"
| "Join (x # y # ys) sep = x @ sep @ Join (y # ys) sep"

definition ReplaceAll :: "string \<Rightarrow> char \<Rightarrow> char \<Rightarrow> string" where
  "ReplaceAll s old new = map (\<lambda>c. if c = old then new else c) s"

definition Trim :: "string \<Rightarrow> string \<Rightarrow> string" where
  "Trim s cutset =
     rev (dropWhile (\<lambda>c. c \<in> set cutset) (rev (dropWhile (\<lambda>c. c \<in> set cutset) s)))"

text \<open>
  \<open>strings.Fields\<close> splits at every run of white space. A string of ASCII bytes is split
  at space, tab, LF, VT, FF and CR; a string with a byte from \<open>0x80\<close> on is decoded as
  UTF-8 and split at the runes of \<open>unicode.IsSpace\<close>, which adds U+0085, U+00A0, U+1680,
  U+2000 to U+200A, U+2028, U+2029, U+202F, U+205F and U+3000. \<open>spaceRunes\<close> lists the
  encodings. Each of the longer ones begins with a lead byte, which the decoder never
  takes for a continuation, and goes on with continuation bytes, so one of them is a
  white-space rune wherever it stands in the string; a byte that is not the start of one
  belongs to a field, whether it decodes or not.
\<close>

definition spaceRunes :: "string list" where
  "spaceRunes =
     [[CHR 0x09], [CHR 0x0A], [CHR 0x0B], [CHR 0x0C], [CHR 0x0D], [CHR 0x20],
      [CHR 0xC2, CHR 0x85], [CHR 0xC2, CHR 0xA0], [CHR 0xE1, CHR 0x9A, CHR 0x80],
      [CHR 0xE2, CHR 0x80, CHR 0x80], [CHR 0xE2, CHR 0x80, CHR 0x81],
      [CHR 0xE2, CHR 0x80, CHR 0x82], [CHR 0xE2, CHR 0x80, CHR 0x83],
      [CHR 0xE2, CHR 0x80, CHR 0x84], [CHR 0xE2, CHR 0x80, CHR 0x85],
      [CHR 0xE2, CHR 0x80, CHR 0x86], [CHR 0xE2, CHR 0x80, CHR 0x87],
      [CHR 0xE2, CHR 0x80, CHR 0x88], [CHR 0xE2, CHR 0x80, CHR 0x89],
      [CHR 0xE2, CHR 0x80, CHR 0x8A], [CHR 0xE2, CHR 0x80, CHR 0xA8],
      [CHR 0xE2, CHR 0x80, CHR 0xA9], [CHR 0xE2, CHR 0x80, CHR 0xAF],
      [CHR 0xE2, CHR 0x81, CHR 0x9F], [CHR 0xE3, CHR 0x80, CHR 0x80]]"

text \<open>The number of bytes of the white-space rune at the front of a string, else 0.\<close>

definition spaceWidth :: "string \<Rightarrow> nat" where
  "spaceWidth s =
     (case find (\<lambda>rune. prefix rune s) spaceRunes of None \<Rightarrow> 0 | Some rune \<Rightarrow> length rune)"

text \<open>
  \<open>FieldsAcc skip cur s\<close>: \<open>skip\<close> bytes of a white-space rune are still to pass over,
  \<open>cur\<close> is the field read so far.
\<close>

fun FieldsAcc :: "nat \<Rightarrow> string \<Rightarrow> string \<Rightarrow> string list" where
  "FieldsAcc skip cur [] = (if cur = [] then [] else [cur])"
| "FieldsAcc skip cur (c # cs) =
     (if skip > 0 then FieldsAcc (skip - 1) cur cs
      else if spaceWidth (c # cs) > 0 then
        (if cur = [] then FieldsAcc (spaceWidth (c # cs) - 1) [] cs
         else cur # FieldsAcc (spaceWidth (c # cs) - 1) [] cs)
      else FieldsAcc 0 (cur @ [c]) cs)"

definition Fields :: "string \<Rightarrow> string list" where
  "Fields s = FieldsAcc 0 [] s"

section \<open>Content builder\<close>

text \<open>
  Modelled from the spec: \<open>formatdef.ContentBuilder\<close> is not among the sources. It
  collects lines; \<open>Line\<close> appends one line at the current indentation (an empty line
  too, and with its format already filled in), \<open>Indent\<close> and \<open>Dedent\<close> move the
  indentation, \<open>Build\<close> returns the text, every line ended by a newline.
\<close>

record ContentBuilder =
  indentStr :: string
  level :: nat
  buf :: "string list"

definition NewContentBuilder :: "string \<Rightarrow> ContentBuilder" where
  "NewContentBuilder ind = \<lparr>indentStr = ind, level = 0, buf = []\<rparr>"

definition pad :: "ContentBuilder \<Rightarrow> string \<Rightarrow> string" where
  "pad cb s = concat (replicate (level cb) (indentStr cb)) @ s"

definition Line :: "string \<Rightarrow> ContentBuilder \<Rightarrow> ContentBuilder" where
  "Line s cb = cb\<lparr>buf := buf cb @ [pad cb s]\<rparr>"

fun Lines :: "string list \<Rightarrow> ContentBuilder \<Rightarrow> ContentBuilder" where
  "Lines [] cb = cb"
| "Lines (l # ls) cb = Lines ls (Line l cb)"

definition Indent :: "ContentBuilder \<Rightarrow> ContentBuilder" where
  "Indent cb = cb\<lparr>level := Suc (level cb)\<rparr>"

definition Dedent :: "ContentBuilder \<Rightarrow> ContentBuilder" where
  "Dedent cb = cb\<lparr>level := level cb - 1\<rparr>"

definition Build :: "ContentBuilder \<Rightarrow> string" where
  "Build cb = concat (map (\<lambda>l. l @ [CHR 0x0A]) (buf cb))"

section \<open>Import tracker\<close>

record ImportTracker =
  pydantic :: "string list"
  typing :: "string list"
  datetime :: bool
  enums :: "string fset"
  models :: "string fset"
  registry :: Registry

definition NewImportTracker :: "Registry \<Rightarrow> ImportTracker" where
  "NewImportTracker r =
     \<lparr>pydantic = [], typing = [], datetime = False, enums = {||}, models = {||}, registry = r\<rparr>"

fun containsString :: "string list \<Rightarrow> string \<Rightarrow> bool" where
  "containsString [] item = False"
| "containsString (s # slice) item = (if s = item then True else containsString slice item)"

fun AddPydantic :: "string list \<Rightarrow> ImportTracker \<Rightarrow> ImportTracker" where
  "AddPydantic [] it = it"
| "AddPydantic (imp # imps) it =
     AddPydantic imps
       (if \<not> containsString (pydantic it) imp then it\<lparr>pydantic := pydantic it @ [imp]\<rparr> else it)"

fun AddTyping :: "string list \<Rightarrow> ImportTracker \<Rightarrow> ImportTracker" where
  "AddTyping [] it = it"
| "AddTyping (imp # imps) it =
     AddTyping imps
       (if \<not> containsString (typing it) imp then it\<lparr>typing := typing it @ [imp]\<rparr> else it)"

definition isBasicType :: "string \<Rightarrow> bool" where
  "isBasicType typeName =
     containsString [''str'', ''int'', ''float'', ''bool'', ''datetime'', ''Any'', ''None''] typeName"

definition quoteChars :: string where
  "quoteChars = [CHR 0x27, CHR 0x22]"

fun keepParts :: "string list \<Rightarrow> string list" where
  "keepParts [] = []"
| "keepParts (part # parts) =
     (let p = Trim part quoteChars
      in if p \<noteq> [] \<and> \<not> Contains p ''|'' then p # keepParts parts else keepParts parts)"

definition extractAllInnerTypes :: "string \<Rightarrow> string list" where
  "extractAllInnerTypes typeName =
     (let cleaned = ReplaceAll typeName (CHR ''['') (CHR '' '');
          cleaned = ReplaceAll cleaned (CHR '']'') (CHR '' '');
          cleaned = ReplaceAll cleaned (CHR '','') (CHR '' '')
      in keepParts (Fields cleaned))"

definition trackInner :: "helpers \<Rightarrow> string \<Rightarrow> ImportTracker \<Rightarrow> ImportTracker" where
  "trackInner h innerType it =
     (if innerType \<noteq> [] \<and> \<not> isBasicType innerType then
        (let kind = resolveFieldType h innerType (registry it)
         in if kind = ''enum'' then it\<lparr>enums := finsert innerType (enums it)\<rparr>
            else if kind = ''model'' then
              AddTyping [''TYPE_CHECKING''] (it\<lparr>models := finsert innerType (models it)\<rparr>)
            else it)
      else it)"

fun trackInners :: "helpers \<Rightarrow> string list \<Rightarrow> ImportTracker \<Rightarrow> ImportTracker" where
  "trackInners h [] it = it"
| "trackInners h (innerType # innerTypes) it = trackInners h innerTypes (trackInner h innerType it)"

definition addTypingIf :: "bool \<Rightarrow> string \<Rightarrow> ImportTracker \<Rightarrow> ImportTracker" where
  "addTypingIf b imp it = (if b then AddTyping [imp] it else it)"

definition TrackFieldType :: "helpers \<Rightarrow> string \<Rightarrow> ImportTracker \<Rightarrow> ImportTracker" where
  "TrackFieldType h typeName it =
     (let it = addTypingIf (Contains typeName ''Optional['') ''Optional'' it;
          it = addTypingIf (Contains typeName ''List['') ''List'' it;
          it = addTypingIf (Contains typeName ''Union['') ''Union'' it;
          it = addTypingIf (Contains typeName ''Dict['') ''Dict'' it;
          it = addTypingIf (Contains typeName ''Any'') ''Any'' it;
          it = addTypingIf (Contains typeName ''Literal['') ''Literal'' it;
          it = (if typeName = ''datetime'' \<or> Contains typeName ''datetime''
                then it\<lparr>datetime := True\<rparr> else it)
      in trackInners h (extractAllInnerTypes typeName) it)"

text \<open>
  \<open>enums\<close> and \<open>models\<close> are Go maps used as sets. A \<open>range\<close> loop over a map visits
  every key once, in an order that the language leaves open and that changes from one
  run to the next: \<open>isVisitOrder ks m\<close> says that \<open>ks\<close> is such an order for \<open>m\<close>.
\<close>

definition isVisitOrder :: "string list \<Rightarrow> string fset \<Rightarrow> bool" where
  "isVisitOrder ks m = (distinct ks \<and> set ks = fset m)"

definition enumImportLine :: "helpers \<Rightarrow> string \<Rightarrow> string" where
  "enumImportLine h enumName = ''from ..enums.'' @ ToSnakeCase h enumName @ '' import '' @ enumName"

definition modelImportLine :: "helpers \<Rightarrow> string \<Rightarrow> string" where
  "modelImportLine h modelName = ''from .'' @ ToSnakeCase h modelName @ '' import '' @ modelName"

text \<open>
  \<open>Generate\<close> sorts \<open>it.typing\<close> in place and writes to the builder, so it returns
  both. \<open>enumOrder\<close> and \<open>modelOrder\<close> are the orders in which its two \<open>range\<close> loops
  visit \<open>it.enums\<close> and \<open>it.models\<close> to collect the names, which it then sorts.
\<close>

definition Generate ::
  "helpers \<Rightarrow> string list \<Rightarrow> string list \<Rightarrow> ImportTracker \<Rightarrow> ContentBuilder
     \<Rightarrow> ImportTracker \<times> ContentBuilder" where
  "Generate h enumOrder modelOrder it cb =
     (let cb = (if length (pydantic it) > 0
                then Line (''from pydantic import '' @ Join (pydantic it) '', '') cb else cb);
          it = (if length (typing it) > 0 then it\<lparr>typing := sort (typing it)\<rparr> else it);
          cb = (if length (typing it) > 0
                then Line (''from typing import '' @ Join (typing it) '', '') cb else cb);
          cb = (if datetime it then Line ''from datetime import datetime'' cb else cb);
          cb = (if enums it \<noteq> {||}
                then (let enumNames = sort enumOrder
                      in Lines (map (enumImportLine h) enumNames) cb)
                else cb);
          cb = Line [] cb;
          cb = (if models it \<noteq> {||}
                then (let cb = Indent (Line ''if TYPE_CHECKING:'' cb);
                          modelNames = sort modelOrder
                      in Dedent (Lines (map (modelImportLine h) modelNames) cb))
                else cb)
      in (it, cb))"

section \<open>Compiling a model\<close>

datatype error = Errorf string

text \<open>
  The inner loop of \<open>resolvePolymorphicThrough\<close> visits every relation of one model and
  stops at the one whose key is \<open>through\<close>, if it is polymorphic: a lookup of that key.
\<close>

definition hasPolyRelationNamed :: "string \<Rightarrow> (string \<times> ModelRelation) list \<Rightarrow> bool" where
  "hasPolyRelationNamed through related =
     (case map_of related through of
        None \<Rightarrow> False
      | Some rel \<Rightarrow> IsRelationPoly (relType rel))"

fun resolveIn :: "string \<Rightarrow> (string \<times> Model) list \<Rightarrow> error + string" where
  "resolveIn through [] = Inl (Errorf (''polymorphic relationship '' @ through @ '' not found''))"
| "resolveIn through ((modelName, model) # rest) =
     (if hasPolyRelationNamed through (mRelated model) then Inr modelName
      else resolveIn through rest)"

definition resolvePolymorphicThrough :: "string \<Rightarrow> Registry \<Rightarrow> error + string" where
  "resolvePolymorphicThrough through r = resolveIn through (GetAllModels r)"

text \<open>
  The field names and relation names are the keys of the map (each key once), sorted.
  Each key is then looked up in the map it came from, so the lookup succeeds; an absent
  key contributes nothing here.
\<close>

definition sortedKeys :: "(string \<times> 'v) list \<Rightarrow> string list" where
  "sortedKeys m = sort (remdups (map fst m))"

definition modelField :: "helpers \<Rightarrow> (string \<times> ModelField) list \<Rightarrow> string \<Rightarrow> Field list" where
  "modelField h modelFields fieldName =
     (case map_of modelFields fieldName of
        None \<Rightarrow> []
      | Some field \<Rightarrow> [\<lparr>fName = fieldName, fType = GetFieldType h (mfType field)\<rparr>])"

definition foreignKeyFields :: "helpers \<Rightarrow> string \<Rightarrow> ModelRelation \<Rightarrow> Field list" where
  "foreignKeyFields h relatedName relation =
     (let relationType = relType relation
      in if IsRelationPoly relationType \<and> IsRelationFor relationType \<and> IsRelationOne relationType
         then [\<lparr>fName = ToCamelCase h (relatedName @ ''_type''), fType = TypeString\<rparr>,
               \<lparr>fName = ToCamelCase h (relatedName @ ''_id''), fType = TypeString\<rparr>]
         else if IsRelationPoly relationType then []
         else if IsRelationFor relationType \<and> IsRelationOne relationType
         then [\<lparr>fName = ToCamelCase h (relatedName @ ''_id''), fType = TypeString\<rparr>]
         else [])"

definition unionTypeName :: "string list \<Rightarrow> string" where
  "unionTypeName for =
     ''Union['' @ Join (map (\<lambda>forModel. [CHR 0x27] @ forModel @ [CHR 0x27]) for) '', '' @ '']''"

definition navigationType :: "string \<Rightarrow> ModelRelation \<Rightarrow> Registry \<Rightarrow> Type" where
  "navigationType relatedName relation r =
     (let relationType = relType relation;
          targetModelName = GetRelationTargetName relatedName (relAliased relation);
          navType =
            (if IsRelationPoly relationType then
               (if length (relFor relation) > 0 then BasicType (unionTypeName (relFor relation))
                else if relThrough relation \<noteq> [] then
                  (case resolvePolymorphicThrough (relThrough relation) r of
                     Inl err \<Rightarrow> TypeAny
                   | Inr throughModel \<Rightarrow> BasicType throughModel)
                else TypeAny)
             else BasicType targetModelName)
      in if IsRelationMany relationType then ArrayType navType else navType)"

definition navigationField :: "string \<Rightarrow> ModelRelation \<Rightarrow> Registry \<Rightarrow> Field" where
  "navigationField relatedName relation r =
     \<lparr>fName = ''_nav_'' @ relatedName, fType = navigationType relatedName relation r\<rparr>"

definition relatedForeignKeys :: "helpers \<Rightarrow> (string \<times> ModelRelation) list \<Rightarrow> string \<Rightarrow> Field list" where
  "relatedForeignKeys h related relatedName =
     (case map_of related relatedName of
        None \<Rightarrow> []
      | Some relation \<Rightarrow> foreignKeyFields h relatedName relation)"

definition relatedNavigation :: "(string \<times> ModelRelation) list \<Rightarrow> Registry \<Rightarrow> string \<Rightarrow> Field list" where
  "relatedNavigation related r relatedName =
     (case map_of related relatedName of
        None \<Rightarrow> []
      | Some relation \<Rightarrow> [navigationField relatedName relation r])"

definition CompileModel :: "helpers \<Rightarrow> Model \<Rightarrow> Registry \<Rightarrow> error + Struct" where
  "CompileModel h model r =
     (let fieldNames = sortedKeys (mFields model);
          structFields = concat (map (modelField h (mFields model)) fieldNames);
          structFields =
            (if length (mRelated model) > 0 then
               (let relatedNames = sortedKeys (mRelated model)
                in structFields
                   @ concat (map (relatedForeignKeys h (mRelated model)) relatedNames)
                   @ concat (map (relatedNavigation (mRelated model) r) relatedNames))
             else structFields)
      in Inr \<lparr>sName = mName model, sFields = structFields\<rparr>)"

section \<open>Generating the model declaration\<close>

record PydanticConfig =
  PydanticV2 :: bool
  AddTypeHints :: bool
  GenerateInit :: bool
  IndentSize :: int
  PythonVersion :: string

text \<open>Of \<open>cfg.MorpheConfig\<close> (not among the sources) the generator reads \<open>Models.UseField\<close>.\<close>

record MorpheConfig =
  ModelsUseField :: bool

record ScanState =
  tracker :: ImportTracker
  needsModelConfig :: bool
  hasPolymorphicTypeField :: bool
  polymorphicTypeToNavMap :: "string \<rightharpoonup> string"

definition isNav :: "Field \<Rightarrow> bool" where
  "isNav field = HasPrefix (fName field) ''_nav_''"

definition isEnumField :: "helpers \<Rightarrow> Registry \<Rightarrow> Field \<Rightarrow> bool" where
  "isEnumField h r field =
     (case fType field of
        BasicType name \<Rightarrow>
          (let innerType = extractInnerType h name
           in innerType \<noteq> [] \<and> resolveFieldType h innerType r = ''enum'')
      | _ \<Rightarrow> False)"

definition isPolyTypeField :: "Field \<Rightarrow> bool" where
  "isPolyTypeField field = (HasSuffix (fName field) ''_type'' \<and> GetName (fType field) = ''str'')"

definition scanField :: "helpers \<Rightarrow> Registry \<Rightarrow> Field \<Rightarrow> ScanState \<Rightarrow> ScanState" where
  "scanField h r field st =
     (if isNav field then st
      else
        (let typeName = GetName (fType field);
             st = st\<lparr>tracker := TrackFieldType h typeName (tracker st)\<rparr>;
             st = (if isEnumField h r field then st\<lparr>needsModelConfig := True\<rparr> else st)
         in if isPolyTypeField field then
              st\<lparr>polymorphicTypeToNavMap :=
                    (polymorphicTypeToNavMap st)
                      (fName field \<mapsto> ''_nav_'' @ TrimSuffix (fName field) ''_type''),
                  hasPolymorphicTypeField := True\<rparr>
            else st))"

fun scanFields :: "helpers \<Rightarrow> Registry \<Rightarrow> Field list \<Rightarrow> ScanState \<Rightarrow> ScanState" where
  "scanFields h r [] st = st"
| "scanFields h r (field # rest) st = scanFields h r rest (scanField h r field st)"

fun scanNavs :: "helpers \<Rightarrow> Field list \<Rightarrow> ImportTracker \<Rightarrow> ImportTracker" where
  "scanNavs h [] it = it"
| "scanNavs h (field # rest) it =
     scanNavs h rest
       (if \<not> isNav field then it else TrackFieldType h (GetName (fType field)) it)"

fun SplitCommaSpace :: "string \<Rightarrow> string \<Rightarrow> string list" where
  "SplitCommaSpace cur [] = [cur]"
| "SplitCommaSpace cur [c] = [cur @ [c]]"
| "SplitCommaSpace cur (c # d # cs) =
     (if c = CHR '','' \<and> d = CHR '' '' then cur # SplitCommaSpace [] cs
      else SplitCommaSpace (cur @ [c]) (d # cs))"

definition allowedTypes :: "Struct \<Rightarrow> string \<Rightarrow> string list" where
  "allowedTypes model navFieldName =
     (case find (\<lambda>navField. fName navField = navFieldName) (sFields model) of
        None \<Rightarrow> []
      | Some navField \<Rightarrow>
          (let unionType = GetName (fType navField)
           in if HasPrefix unionType ''Union['' \<and> HasSuffix unionType '']'' then
                (let unionContent = take (length unionType - 1 - 6) (drop 6 unionType)
                 in map (\<lambda>t. [CHR 0x22] @ Trim t quoteChars @ [CHR 0x22])
                      (SplitCommaSpace [] unionContent))
              else []))"

definition dataFieldLine ::
  "helpers \<Rightarrow> PydanticConfig \<Rightarrow> Struct \<Rightarrow> (string \<rightharpoonup> string) \<Rightarrow> Field \<Rightarrow> string" where
  "dataFieldLine h config model polyMap field =
     (let fieldName = SanitizePythonIdentifier h (ToSnakeCase h (fName field));
          fieldType = GetName (fType field)
      in if AddTypeHints config then
           (case polyMap (fName field) of
              Some navFieldName \<Rightarrow>
                (let allowed = allowedTypes model navFieldName
                 in if length allowed > 0
                    then fieldName @ '': Literal['' @ Join allowed '', '' @ '']''
                    else fieldName @ '': str'')
            | None \<Rightarrow>
                (if length fieldName > 3
                    \<and> (drop (length fieldName - 3) fieldName = ''_id''
                         \<or> HasSuffix fieldName ''_type'')
                 then fieldName @ '': Optional['' @ fieldType @ ''] = None''
                 else fieldName @ '': '' @ fieldType))
         else fieldName @ '' = None'')"

definition hasPolyFields :: "Struct \<Rightarrow> string \<Rightarrow> bool" where
  "hasPolyFields model relName =
     list_ex (\<lambda>f. fName f = relName @ ''_type'' \<or> fName f = relName @ ''_id'') (sFields model)"

definition navFieldLine :: "helpers \<Rightarrow> Struct \<Rightarrow> Field \<Rightarrow> string list" where
  "navFieldLine h model field =
     (let relName = TrimPrefix (fName field) ''_nav_'';
          fieldName = SanitizePythonIdentifier h (ToSnakeCase h relName);
          fieldType = GetName (fType field)
      in if hasPolyFields model relName then []
         else if HasPrefix fieldType ''List['' then
           [fieldName @ '': Optional['' @ fieldType @ ''] = None'']
         else if Contains fieldType ''Union['' then
           [fieldName @ '': Optional['' @ fieldType @ ''] = None'']
         else
           [fieldName @ '': Optional['' @ [CHR 0x27] @ fieldType @ [CHR 0x27] @ ''] = None''])"

definition dataFieldLines ::
  "helpers \<Rightarrow> PydanticConfig \<Rightarrow> Struct \<Rightarrow> (string \<rightharpoonup> string) \<Rightarrow> string list" where
  "dataFieldLines h config model polyMap =
     map (dataFieldLine h config model polyMap) (filter (\<lambda>f. \<not> isNav f) (sFields model))"

definition navFieldLines :: "helpers \<Rightarrow> Struct \<Rightarrow> string list" where
  "navFieldLines h model = concat (map (navFieldLine h model) (filter isNav (sFields model)))"

definition configV2Lines :: "string list" where
  "configV2Lines =
     [[CHR 0x22] @ ''validate_assignment'' @ [CHR 0x22] @ '': True,'',
      [CHR 0x22] @ ''use_enum_values'' @ [CHR 0x22] @ '': True,'']"

definition configV1Lines :: "string list" where
  "configV1Lines = [''validate_assignment = True'', ''use_enum_values = True'']"

definition modelConfigBlock :: "PydanticConfig \<Rightarrow> bool \<Rightarrow> ContentBuilder \<Rightarrow> ContentBuilder" where
  "modelConfigBlock config needsConfig cb =
     (if PydanticV2 config \<and> needsConfig then
        Line ''}'' (Dedent (Lines configV2Lines (Indent (Line ''model_config = {'' (Line [] cb)))))
      else if \<not> PydanticV2 config \<and> needsConfig then
        Dedent (Lines configV1Lines (Indent (Line ''class Config:'' (Line [] cb))))
      else cb)"

definition tripleQuote :: string where
  "tripleQuote = [CHR 0x22, CHR 0x22, CHR 0x22]"

definition scanModel :: "helpers \<Rightarrow> Struct \<Rightarrow> MorpheConfig \<Rightarrow> Registry \<Rightarrow> ScanState" where
  "scanModel h model morpheConfig r =
     (let it = NewImportTracker r;
          it = AddPydantic [''BaseModel''] it;
          it = (if ModelsUseField morpheConfig then AddPydantic [''Field''] it else it)
      in scanFields h r (sFields model)
           \<lparr>tracker = it, needsModelConfig = False, hasPolymorphicTypeField = False,
            polymorphicTypeToNavMap = Map.empty\<rparr>)"

text \<open>
  The imports of a model: the scan of the data fields, the scan of the navigation fields,
  then \<open>Optional\<close> under type hints and \<open>Literal\<close> for a type discriminator.
\<close>

definition modelImports ::
  "helpers \<Rightarrow> Struct \<Rightarrow> PydanticConfig \<Rightarrow> MorpheConfig \<Rightarrow> Registry \<Rightarrow> ImportTracker" where
  "modelImports h model config morpheConfig r =
     (let st = scanModel h model morpheConfig r;
          it = scanNavs h (sFields model) (tracker st);
          it = (if AddTypeHints config then AddTyping [''Optional''] it else it);
          it = (if hasPolymorphicTypeField st then AddTyping [''Literal''] it else it)
      in it)"

text \<open>
  The generator calls \<open>Generate\<close>, whose two loops visit the maps in some order; the
  declaration is written here with one such order, and \<open>Generate\<close> is shown below to
  write the same lines for every other.
\<close>

definition generateModelBuilder ::
  "helpers \<Rightarrow> Struct \<Rightarrow> PydanticConfig \<Rightarrow> MorpheConfig \<Rightarrow> Registry \<Rightarrow> ContentBuilder" where
  "generateModelBuilder h model config morpheConfig r =
     (let cb = NewContentBuilder ''    '';
          st = scanModel h model morpheConfig r;
          it = modelImports h model config morpheConfig r;
          cb = snd (Generate h (sorted_list_of_fset (enums it)) (sorted_list_of_fset (models it))
                      it cb);
          cb = Line [] cb;
          cb = Line (''class '' @ sName model @ ''(BaseModel):'') cb;
          cb = Indent cb;
          cb = Line (tripleQuote @ sName model @ '' model.'' @ tripleQuote) cb;
          cb = (if length (sFields model) = 0 then Line ''pass'' cb
                else
                  modelConfigBlock config (needsModelConfig st)
                    (Lines (navFieldLines h model)
                      (Lines (dataFieldLines h config model (polymorphicTypeToNavMap st)) cb)))
      in Dedent cb)"

definition generateModelContent ::
  "helpers \<Rightarrow> Struct \<Rightarrow> PydanticConfig \<Rightarrow> MorpheConfig \<Rightarrow> Registry \<Rightarrow> string" where
  "generateModelContent h model config morpheConfig r =
     Build (generateModelBuilder h model config morpheConfig r)"

text \<open>
  \<open>CompileAllModels\<close> visits the registry's models in map order and collects the
  contents in a map keyed by model name, which it hands to the writer.
\<close>

fun compileEach ::
  "helpers \<Rightarrow> PydanticConfig \<Rightarrow> MorpheConfig \<Rightarrow> Registry \<Rightarrow> (string \<times> Model) list
     \<Rightarrow> (string \<rightharpoonup> string) \<Rightarrow> error + (string \<rightharpoonup> string)" where
  "compileEach h config morpheConfig r [] modelContents = Inr modelContents"
| "compileEach h config morpheConfig r ((modelName, model) # rest) modelContents =
     (case CompileModel h model r of
        Inl (Errorf err) \<Rightarrow> Inl (Errorf (''failed to compile model '' @ modelName @ '': '' @ err))
      | Inr compiledModel \<Rightarrow>
          compileEach h config morpheConfig r rest
            (modelContents(modelName \<mapsto> generateModelContent h compiledModel config morpheConfig r)))"

definition CompileAllModels ::
  "helpers \<Rightarrow> PydanticConfig \<Rightarrow> MorpheConfig \<Rightarrow> Registry \<Rightarrow> error + (string \<rightharpoonup> string)" where
  "CompileAllModels h config morpheConfig r =
     compileEach h config morpheConfig r (GetAllModels r) Map.empty"

section \<open>Generating the structure declaration\<close>

definition structureNeedsConfig :: "Field \<Rightarrow> bool" where
  "structureNeedsConfig field =
     (case fType field of
        BasicType name \<Rightarrow>
          (let typeName = GetName (fType field)
           in typeName \<noteq> ''str'' \<and> typeName \<noteq> ''int'' \<and> typeName \<noteq> ''float''
              \<and> typeName \<noteq> ''bool'' \<and> typeName \<noteq> ''datetime''
              \<and> typeName \<noteq> ''Dict[str, Any]'' \<and> \<not> Contains typeName ''['')
      | _ \<Rightarrow> False)"

definition structureImports :: "Struct \<Rightarrow> string list" where
  "structureImports structure =
     (let names = map (\<lambda>field. GetName (fType field)) (sFields structure);
          hasDict = list_ex (\<lambda>typeName. typeName \<noteq> ''datetime'' \<and> typeName = ''Dict[str, Any]'') names;
          hasList = list_ex (\<lambda>typeName. typeName \<noteq> ''datetime'' \<and> typeName \<noteq> ''Dict[str, Any]''
                                \<and> length typeName > 5 \<and> take 5 typeName = ''List['') names
      in [''Optional''] @ (if hasDict then [''Dict'', ''Any''] else [])
           @ (if hasList then [''List''] else []))"

definition structureFieldLine :: "helpers \<Rightarrow> Field \<Rightarrow> string" where
  "structureFieldLine h field =
     SanitizePythonIdentifier h (ToSnakeCase h (fName field)) @ '': '' @ GetName (fType field)"

text \<open>
  The declaration up to and including its field lines, inside the class body.
  \<open>formatdef.FormatList\<close>, which writes the names of the \<open>typing\<close> line, is not among
  the sources; it is taken to join the names with the separator it is given.
\<close>

definition structureBody :: "helpers \<Rightarrow> Struct \<Rightarrow> PydanticConfig \<Rightarrow> ContentBuilder" where
  "structureBody h structure config =
     (let cb = NewContentBuilder ''    '';
          cb = (if PydanticV2 config then Line ''from pydantic import BaseModel, Field'' cb
                else Line ''from pydantic import BaseModel'' cb);
          cb = (if AddTypeHints config then
                  (let imps = structureImports structure;
                       hasDate = list_ex (\<lambda>field. GetName (fType field) = ''datetime'')
                                   (sFields structure);
                       cb = (if length imps > 0
                             then Line (''from typing import '' @ Join imps '', '') cb else cb)
                   in if hasDate then Line ''from datetime import datetime'' cb else cb)
                else cb);
          cb = Line [] cb;
          cb = Line [] cb;
          cb = Line (''class '' @ sName structure @ ''(BaseModel):'') cb;
          cb = Indent cb;
          cb = Line (tripleQuote @ sName structure @ '' data transfer object.'' @ tripleQuote) cb
      in Lines (map (structureFieldLine h) (sFields structure)) cb)"

definition generateStructureBuilder :: "helpers \<Rightarrow> Struct \<Rightarrow> PydanticConfig \<Rightarrow> ContentBuilder" where
  "generateStructureBuilder h structure config =
     (let cb = structureBody h structure config;
          cb = (if PydanticV2 config \<and> list_ex structureNeedsConfig (sFields structure) then
                  Line ''}'' (Dedent (Lines configV2Lines
                    (Indent (Line ''model_config = {'' (Line [] cb)))))
                else cb)
      in Dedent cb)"

definition generateStructureContent :: "helpers \<Rightarrow> Struct \<Rightarrow> PydanticConfig \<Rightarrow> string" where
  "generateStructureContent h structure config = Build (generateStructureBuilder h structure config)"

section \<open>A reference instance of the absent functions\<close>

text \<open>
  The closed examples below need concrete functions in place of the parameters. None of
  them is among the sources; each is written from what the specification and the README's
  sample output say about it.
\<close>

definition upperChars :: string where
  "upperChars = ''ABCDEFGHIJKLMNOPQRSTUVWXYZ''"

definition lowerChars :: string where
  "lowerChars = ''abcdefghijklmnopqrstuvwxyz''"

definition digitChars :: string where
  "digitChars = ''0123456789''"

definition toLower :: "char \<Rightarrow> char" where
  "toLower c = (case map_of (zip upperChars lowerChars) c of Some l \<Rightarrow> l | None \<Rightarrow> c)"

definition toUpper :: "char \<Rightarrow> char" where
  "toUpper c = (case map_of (zip lowerChars upperChars) c of Some u \<Rightarrow> u | None \<Rightarrow> c)"

text \<open>
  Modelled from the spec: \<open>formatdef.ToSnakeCase\<close> turns a schema name into the target's
  identifier case (\<open>TaxID\<close> to \<open>tax_id\<close>, \<open>ID\<close> to \<open>id\<close>): every letter in lower case,
  an underscore before a capital that follows a small letter or a digit.
\<close>

fun snakeFrom :: "bool \<Rightarrow> string \<Rightarrow> string" where
  "snakeFrom afterSmall [] = []"
| "snakeFrom afterSmall (c # cs) =
     (if c \<in> set upperChars then
        (if afterSmall then CHR ''_'' # toLower c # snakeFrom False cs
         else toLower c # snakeFrom False cs)
      else c # snakeFrom (c \<in> set lowerChars \<or> c \<in> set digitChars) cs)"

definition refToSnakeCase :: "string \<Rightarrow> string" where
  "refToSnakeCase s = snakeFrom False s"

text \<open>
  Modelled from the spec: \<open>formatdef.ToCamelCase\<close> joins the parts of a name separated by
  underscores, each later part starting with a capital (\<open>Company_id\<close> to \<open>CompanyId\<close>);
  the README renders the key of a relation \<open>Company\<close> as \<open>company_id\<close>, the snake case of
  that.
\<close>

fun camelFrom :: "bool \<Rightarrow> string \<Rightarrow> string" where
  "camelFrom afterUnderscore [] = []"
| "camelFrom afterUnderscore (c # cs) =
     (if c = CHR ''_'' then camelFrom True cs
      else (if afterUnderscore then toUpper c else c) # camelFrom False cs)"

definition refToCamelCase :: "string \<Rightarrow> string" where
  "refToCamelCase s = camelFrom False s"

text \<open>
  Modelled from the spec: \<open>SanitizePythonIdentifier\<close> checks a name against a fixed list of
  reserved words and appends \<open>_\<close> to one that collides.
\<close>

definition reservedWords :: "string list" where
  "reservedWords =
     [''False'', ''None'', ''True'', ''and'', ''as'', ''assert'', ''async'', ''await'', ''break'',
      ''class'', ''continue'', ''def'', ''del'', ''elif'', ''else'', ''except'', ''finally'',
      ''for'', ''from'', ''global'', ''if'', ''import'', ''in'', ''is'', ''lambda'', ''nonlocal'',
      ''not'', ''or'', ''pass'', ''raise'', ''return'', ''try'', ''while'', ''with'', ''yield'']"

definition refSanitizePythonIdentifier :: "string \<Rightarrow> string" where
  "refSanitizePythonIdentifier name = (if name \<in> set reservedWords then name @ ''_'' else name)"

text \<open>
  Modelled from the spec: \<open>typemap.GetFieldType\<close> is total; it maps the schema's scalar
  types to the target's and any other name to a reference to the Definition of that name.
\<close>

definition refGetFieldType :: "string \<Rightarrow> Type" where
  "refGetFieldType t =
     (if t = ''String'' \<or> t = ''UUID'' \<or> t = ''Protected'' \<or> t = ''Sealed'' then BasicType ''str''
      else if t = ''AutoIncrement'' \<or> t = ''Integer'' then BasicType ''int''
      else if t = ''Float'' then BasicType ''float''
      else if t = ''Boolean'' then BasicType ''bool''
      else if t = ''Time'' \<or> t = ''Date'' then BasicType ''datetime''
      else BasicType t)"

text \<open>
  Modelled from the spec: \<open>extractInnerType\<close> gives the name a type expression refers to:
  what stands inside one \<open>Optional[...]\<close> or \<open>List[...]\<close>, else the name itself.
\<close>

definition refExtractInnerType :: "string \<Rightarrow> string" where
  "refExtractInnerType name =
     (if HasPrefix name ''Optional['' \<and> HasSuffix name '']''
      then take (length name - 1 - 9) (drop 9 name)
      else if HasPrefix name ''List['' \<and> HasSuffix name '']''
      then take (length name - 1 - 5) (drop 5 name)
      else name)"

text \<open>
  Modelled from the spec: \<open>resolveFieldType\<close> looks a name up in the registry; the category
  is where the name exists.
\<close>

definition refResolveFieldType :: "string \<Rightarrow> Registry \<Rightarrow> string" where
  "refResolveFieldType name r =
     (if name \<in> set (regEnums r) then ''enum''
      else if name \<in> set (map fst (regModels r)) then ''model''
      else if name \<in> set (regStructures r) then ''structure''
      else if name \<in> set (regEntities r) then ''entity''
      else [])"

definition refHelpers :: helpers where
  "refHelpers =
     \<lparr>ToCamelCase = refToCamelCase, ToSnakeCase = refToSnakeCase,
      SanitizePythonIdentifier = refSanitizePythonIdentifier, GetFieldType = refGetFieldType,
      extractInnerType = refExtractInnerType, resolveFieldType = refResolveFieldType\<rparr>"

section \<open>Example schemas\<close>

text \<open>The model \<open>Company\<close> of the test data, and a \<open>Person\<close> that belongs to it.\<close>

definition plainRelation :: "RelationType \<Rightarrow> ModelRelation" where
  "plainRelation k = \<lparr>relType = k, relFor = [], relThrough = [], relAliased = []\<rparr>"

definition companyModel :: Model where
  "companyModel =
     \<lparr>mName = ''Company'',
      mFields = [(''ID'', \<lparr>mfType = ''AutoIncrement''\<rparr>), (''Name'', \<lparr>mfType = ''String''\<rparr>),
                 (''TaxID'', \<lparr>mfType = ''String''\<rparr>)],
      mRelated = [(''Person'', plainRelation HasMany)]\<rparr>"

definition personModel :: Model where
  "personModel =
     \<lparr>mName = ''Person'',
      mFields = [(''ID'', \<lparr>mfType = ''AutoIncrement''\<rparr>), (''LastName'', \<lparr>mfType = ''String''\<rparr>)],
      mRelated = [(''Company'', plainRelation ForOne)]\<rparr>"

definition companyRegistry :: Registry where
  "companyRegistry =
     \<lparr>regModels = [(''Company'', companyModel), (''Person'', personModel)],
      regEnums = [], regStructures = [], regEntities = []\<rparr>"

definition hintsConfig :: PydanticConfig where
  "hintsConfig =
     \<lparr>PydanticV2 = True, AddTypeHints = True, GenerateInit = False, IndentSize = 4,
      PythonVersion = ''3.10''\<rparr>"


definition plainMorpheConfig :: MorpheConfig where
  "plainMorpheConfig = \<lparr>ModelsUseField = False\<rparr>"

definition exampleTracker :: ImportTracker where
  "exampleTracker = AddTyping [''Optional''] (AddPydantic [''BaseModel''] (NewImportTracker companyRegistry))"

text \<open>What \<open>CompileModel\<close> makes of \<open>Company\<close> and of \<open>Person\<close> with the reference instance.\<close>

definition companyStruct :: Struct where
  "companyStruct =
     \<lparr>sName = ''Company'',
      sFields = [\<lparr>fName = ''ID'', fType = BasicType ''int''\<rparr>,
                 \<lparr>fName = ''Name'', fType = BasicType ''str''\<rparr>,
                 \<lparr>fName = ''TaxID'', fType = BasicType ''str''\<rparr>,
                 \<lparr>fName = ''_nav_Person'', fType = ArrayType (BasicType ''Person'')\<rparr>]\<rparr>"


text \<open>
  A \<open>Comment\<close> that belongs to a \<open>Person\<close> or a \<open>Company\<close> (the README's polymorphic
  model), and a second model, \<open>Review\<close>, with a polymorphic relation of the same name.
\<close>

definition commentableRelation :: ModelRelation where
  "commentableRelation =
     \<lparr>relType = ForOnePoly, relFor = [''Person'', ''Company''], relThrough = [], relAliased = []\<rparr>"

definition commentModel :: Model where
  "commentModel =
     \<lparr>mName = ''Comment'',
      mFields = [(''Content'', \<lparr>mfType = ''String''\<rparr>), (''ID'', \<lparr>mfType = ''AutoIncrement''\<rparr>)],
      mRelated = [(''Commentable'', commentableRelation)]\<rparr>"

definition reviewModel :: Model where
  "reviewModel =
     \<lparr>mName = ''Review'',
      mFields = [(''ID'', \<lparr>mfType = ''AutoIncrement''\<rparr>)],
      mRelated = [(''Commentable'', commentableRelation)]\<rparr>"

text \<open>
  A \<open>Post\<close> whose comments are reached through the relation \<open>Commentable\<close>; \<open>Tagged\<close>
  is the same with a for-list beside the through reference.
\<close>

definition commentsRelation :: ModelRelation where
  "commentsRelation =
     \<lparr>relType = HasManyPoly, relFor = [], relThrough = ''Commentable'', relAliased = []\<rparr>"

definition postModel :: Model where
  "postModel =
     \<lparr>mName = ''Post'', mFields = [(''ID'', \<lparr>mfType = ''AutoIncrement''\<rparr>)],
      mRelated = [(''Comment'', commentsRelation)]\<rparr>"



text \<open>
  One registry listed in two orders: the same three models, \<open>Comment\<close> and \<open>Review\<close>
  exchanged.
\<close>

definition blogRegistry :: Registry where
  "blogRegistry =
     \<lparr>regModels = [(''Comment'', commentModel), (''Review'', reviewModel), (''Post'', postModel)],
      regEnums = [], regStructures = [], regEntities = []\<rparr>"

definition blogRegistrySwapped :: Registry where
  "blogRegistrySwapped =
     \<lparr>regModels = [(''Review'', reviewModel), (''Comment'', commentModel), (''Post'', postModel)],
      regEnums = [], regStructures = [], regEntities = []\<rparr>"



definition accountModel :: Model where
  "accountModel =
     \<lparr>mName = ''Account'',
      mFields = [(''TaxID'', \<lparr>mfType = ''String''\<rparr>), (''account_type'', \<lparr>mfType = ''String''\<rparr>)],
      mRelated = []\<rparr>"

definition accountStruct :: Struct where
  "accountStruct =
     \<lparr>sName = ''Account'',
      sFields = [\<lparr>fName = ''TaxID'', fType = BasicType ''str''\<rparr>,
                 \<lparr>fName = ''account_type'', fType = BasicType ''str''\<rparr>]\<rparr>"




text \<open>A model with one relation of each of the eight kinds.\<close>

definition allKindsModel :: Model where
  "allKindsModel =
     \<lparr>mName = ''Hub'',
      mFields = [(''ID'', \<lparr>mfType = ''AutoIncrement''\<rparr>)],
      mRelated = [(''Owner'', plainRelation ForOne), (''Tag'', plainRelation ForMany),
                  (''Badge'', plainRelation HasOne), (''Member'', plainRelation HasMany),
                  (''Subject'', commentableRelation),
                  (''Topic'', \<lparr>relType = ForManyPoly, relFor = [''Person''], relThrough = [],
                             relAliased = []\<rparr>),
                  (''Cover'', \<lparr>relType = HasOnePoly, relFor = [], relThrough = ''Imageable'',
                             relAliased = []\<rparr>),
                  (''Comment'', commentsRelation)]\<rparr>"

text \<open>
  A registry with two models and two enums, and a tracker that has met the second of each
  before the first, and a date.
\<close>

definition staffRegistry :: Registry where
  "staffRegistry =
     \<lparr>regModels = [(''Company'', companyModel), (''Person'', personModel)],
      regEnums = [''Nationality'', ''Status''], regStructures = [''Address''], regEntities = []\<rparr>"

definition staffTracker :: ImportTracker where
  "staffTracker =
     TrackFieldType refHelpers ''Company''
       (TrackFieldType refHelpers ''Nationality''
         (TrackFieldType refHelpers ''datetime''
           (TrackFieldType refHelpers ''List[Person]''
             (TrackFieldType refHelpers ''Status''
               (AddTyping [''Optional'']
                 (AddPydantic [''BaseModel'', ''Field''] (NewImportTracker staffRegistry)))))))"

definition fieldFirstTracker :: ImportTracker where
  "fieldFirstTracker = AddPydantic [''Field'', ''BaseModel''] (NewImportTracker staffRegistry)"



text \<open>
  A struct whose type discriminator \<open>subject_type\<close> stands beside a navigation field of a
  Union type, and the \<open>Comment\<close> of the README as \<open>CompileModel\<close> makes it with the
  reference instance.
\<close>

definition noteStruct :: Struct where
  "noteStruct =
     \<lparr>sName = ''Note'',
      sFields = [\<lparr>fName = ''ID'', fType = BasicType ''int''\<rparr>,
                 \<lparr>fName = ''subject_type'', fType = BasicType ''str''\<rparr>,
                 \<lparr>fName = ''_nav_subject'',
                  fType = BasicType (''Union['' @ [CHR 0x27] @ ''Person'' @ [CHR 0x27] @ '', ''
                                     @ [CHR 0x27] @ ''Company'' @ [CHR 0x27] @ '']'')\<rparr>]\<rparr>"



section \<open>The sections of a declaration\<close>

text \<open>
  The import section in the order the specification fixes, written out line by line
  for a builder whose current indentation is \<open>ind\<close> and whose indentation step is
  \<open>step\<close>: the \<open>pydantic\<close> line, its names in the order in which they were added; the
  \<open>typing\<close> line, its names sorted; the \<open>datetime\<close> line; one line per enum, the
  enums sorted; an empty line; then the guard and under it one line per model, the
  models sorted. A part is present only if the tracker holds something for it.
\<close>

definition importSection :: "helpers \<Rightarrow> ImportTracker \<Rightarrow> string \<Rightarrow> string \<Rightarrow> string list" where
  "importSection h it ind step =
     map ((@) ind)
       ((if pydantic it \<noteq> [] then [''from pydantic import '' @ Join (pydantic it) '', ''] else [])
        @ (if typing it \<noteq> [] then [''from typing import '' @ Join (sort (typing it)) '', ''] else [])
        @ (if datetime it then [''from datetime import datetime''] else [])
        @ map (\<lambda>e. ''from ..enums.'' @ ToSnakeCase h e @ '' import '' @ e)
            (sorted_list_of_fset (enums it))
        @ [[]]
        @ (if models it \<noteq> {||}
           then ''if TYPE_CHECKING:''
                # map (\<lambda>m. step @ ''from .'' @ ToSnakeCase h m @ '' import '' @ m)
                    (sorted_list_of_fset (models it))
           else []))"

text \<open>
  The configuration block as it stands in a class body, line by line: an empty line at
  the indentation of the body, then \<open>model_config\<close> in the style of Pydantic 2 or the
  class \<open>Config\<close> in the style of Pydantic 1; nothing when no block is needed.
\<close>

definition modelConfigLines :: "PydanticConfig \<Rightarrow> bool \<Rightarrow> string list" where
  "modelConfigLines config needsConfig =
     (if needsConfig then
        (if PydanticV2 config
         then [''    '',
               ''    model_config = {'',
               ''        '' @ [CHR 0x22] @ ''validate_assignment'' @ [CHR 0x22] @ '': True,'',
               ''        '' @ [CHR 0x22] @ ''use_enum_values'' @ [CHR 0x22] @ '': True,'',
               ''    }'']
         else [''    '',
               ''    class Config:'',
               ''        validate_assignment = True'',
               ''        use_enum_values = True''])
      else [])"

text \<open>
  The names that the scan enters in \<open>polymorphicTypeToNavMap\<close>: those of the data fields
  that end in \<open>_type\<close> and have the type \<open>str\<close>.
\<close>

definition polyTypeNames :: "Field list \<Rightarrow> string set" where
  "polyTypeNames fs = fName ` {f \<in> set fs. \<not> isNav f \<and> isPolyTypeField f}"

text \<open>The fields of a compiled model, group by group.\<close>

definition ownFields :: "helpers \<Rightarrow> Model \<Rightarrow> Field list" where
  "ownFields h model = concat (map (modelField h (mFields model)) (sortedKeys (mFields model)))"

definition foreignKeys :: "helpers \<Rightarrow> Model \<Rightarrow> Field list" where
  "foreignKeys h model =
     concat (map (relatedForeignKeys h (mRelated model)) (sortedKeys (mRelated model)))"

definition navigationFields :: "Model \<Rightarrow> Registry \<Rightarrow> Field list" where
  "navigationFields model r =
     concat (map (relatedNavigation (mRelated model) r) (sortedKeys (mRelated model)))"

section \<open>Import states ordered by what they hold\<close>

text \<open>
  \<open>trackerLe a b\<close>: the state \<open>b\<close> holds every import that \<open>a\<close> holds. An operation is
  \<open>stable\<close> when it only adds imports and changes nothing in a state that already holds
  what it adds; stable operations compose, and a stable operation applied twice is the
  operation applied once.
\<close>

definition trackerLe :: "ImportTracker \<Rightarrow> ImportTracker \<Rightarrow> bool" where
  "trackerLe a b =
     (registry b = registry a \<and> set (typing a) \<subseteq> set (typing b)
      \<and> (datetime a \<longrightarrow> datetime b) \<and> enums a |\<subseteq>| enums b \<and> models a |\<subseteq>| models b)"

definition stable :: "(ImportTracker \<Rightarrow> ImportTracker) \<Rightarrow> bool" where
  "stable f = ((\<forall>s. trackerLe s (f s)) \<and> (\<forall>s s'. trackerLe (f s) s' \<longrightarrow> f s' = s'))"

section \<open>The import tracker adds nothing twice\<close>

lemma containsString_set: "containsString xs x = (x \<in> set xs)"
  by (induction xs) auto

lemma trackerLe_refl: "trackerLe a a"
  by (simp add: trackerLe_def)

lemma trackerLe_trans: "trackerLe a b \<Longrightarrow> trackerLe b c \<Longrightarrow> trackerLe a c"
  by (auto simp: trackerLe_def)

lemma stable_comp: "stable f \<Longrightarrow> stable g \<Longrightarrow> stable (g \<circ> f)"
proof -
  assume f: "stable f" and g: "stable g"
  have 1: "trackerLe s (g (f s))" for s
    using f g trackerLe_trans unfolding stable_def by blast
  have 2: "g (f s') = s'" if "trackerLe (g (f s)) s'" for s s'
  proof -
    have "trackerLe (f s) (g (f s))" using g unfolding stable_def by blast
    then have "trackerLe (f s) s'" using that trackerLe_trans by blast
    then have a: "f s' = s'" using f unfolding stable_def by blast
    have "g s' = s'" using g that unfolding stable_def by blast
    with a show ?thesis by simp
  qed
  show ?thesis unfolding stable_def comp_def using 1 2 by blast
qed

lemma stable_id: "stable (\<lambda>s. s)"
  by (simp add: stable_def trackerLe_refl)

lemma stable_AddTyping1: "stable (AddTyping [imp])"
  by (auto simp: stable_def trackerLe_def containsString_set)

lemma stable_addTypingIf: "stable (addTypingIf b imp)"
proof (cases b)
  case True
  then have "addTypingIf b imp = AddTyping [imp]" by (intro ext) (simp add: addTypingIf_def)
  then show ?thesis by (simp only: stable_AddTyping1)
next
  case False
  then have "addTypingIf b imp = (\<lambda>s. s)" by (intro ext) (simp add: addTypingIf_def)
  then show ?thesis by (simp only: stable_id)
qed

lemma stable_datetime: "stable (\<lambda>it. if b then it\<lparr>datetime := True\<rparr> else it)"
  by (auto simp: stable_def trackerLe_def)

lemma stable_trackInner: "stable (trackInner h t)"
  by (auto simp: stable_def trackerLe_def trackInner_def Let_def containsString_set finsert_absorb)

lemma stable_trackInners: "stable (trackInners h ts)"
proof (induction ts)
  case Nil
  have "trackInners h [] = (\<lambda>s. s)" by (intro ext) simp
  then show ?case by (simp only: stable_id)
next
  case (Cons t ts)
  have "trackInners h (t # ts) = trackInners h ts \<circ> trackInner h t" by (intro ext) simp
  then show ?case using stable_comp[OF stable_trackInner Cons] by (simp only:)
qed

lemma TrackFieldType_comp:
  "TrackFieldType h t =
     trackInners h (extractAllInnerTypes t)
     \<circ> (\<lambda>it. if t = ''datetime'' \<or> Contains t ''datetime'' then it\<lparr>datetime := True\<rparr> else it)
     \<circ> addTypingIf (Contains t ''Literal['') ''Literal''
     \<circ> addTypingIf (Contains t ''Any'') ''Any''
     \<circ> addTypingIf (Contains t ''Dict['') ''Dict''
     \<circ> addTypingIf (Contains t ''Union['') ''Union''
     \<circ> addTypingIf (Contains t ''List['') ''List''
     \<circ> addTypingIf (Contains t ''Optional['') ''Optional''"
  by (rule ext) (simp only: TrackFieldType_def Let_def comp_def)

lemma stable_TrackFieldType: "stable (TrackFieldType h t)"
  unfolding TrackFieldType_comp
  by (rule stable_comp stable_addTypingIf stable_datetime stable_trackInners)+

lemma TrackFieldType_idem: "TrackFieldType h t (TrackFieldType h t it) = TrackFieldType h t it"
  using stable_TrackFieldType[of h t] trackerLe_refl unfolding stable_def by blast

lemma AddTyping_fields:
  "pydantic (AddTyping imps it) = pydantic it" "datetime (AddTyping imps it) = datetime it"
  "enums (AddTyping imps it) = enums it" "models (AddTyping imps it) = models it"
  "registry (AddTyping imps it) = registry it"
  by (induction imps arbitrary: it; simp)+

lemma AddPydantic_fields:
  "typing (AddPydantic imps it) = typing it" "datetime (AddPydantic imps it) = datetime it"
  "enums (AddPydantic imps it) = enums it" "models (AddPydantic imps it) = models it"
  "registry (AddPydantic imps it) = registry it"
  by (induction imps arbitrary: it; simp)+

lemma set_typing_AddTyping: "set (typing (AddTyping imps it)) = set (typing it) \<union> set imps"
  by (induction imps arbitrary: it) (auto simp: containsString_set)

lemma set_pydantic_AddPydantic: "set (pydantic (AddPydantic imps it)) = set (pydantic it) \<union> set imps"
  by (induction imps arbitrary: it) (auto simp: containsString_set)

lemma AddTyping_present: "set imps \<subseteq> set (typing it) \<Longrightarrow> AddTyping imps it = it"
  by (induction imps arbitrary: it) (auto simp: containsString_set)

lemma AddPydantic_present: "set imps \<subseteq> set (pydantic it) \<Longrightarrow> AddPydantic imps it = it"
  by (induction imps arbitrary: it) (auto simp: containsString_set)

lemma AddTyping_idem: "AddTyping imps (AddTyping imps it) = AddTyping imps it"
  by (rule AddTyping_present) (simp add: set_typing_AddTyping)

lemma AddPydantic_idem: "AddPydantic imps (AddPydantic imps it) = AddPydantic imps it"
  by (rule AddPydantic_present) (simp add: set_pydantic_AddPydantic)

lemma count_typing_AddTyping:
  "count_list (typing (AddTyping imps it)) x =
     (if x \<in> set (typing it) then count_list (typing it) x else if x \<in> set imps then 1 else 0)"
  by (induction imps arbitrary: it) (auto simp: containsString_set count_list_0_iff)

lemma count_pydantic_AddPydantic:
  "count_list (pydantic (AddPydantic imps it)) x =
     (if x \<in> set (pydantic it) then count_list (pydantic it) x else if x \<in> set imps then 1 else 0)"
  by (induction imps arbitrary: it) (auto simp: containsString_set count_list_0_iff)

lemma distinct_typing_AddTyping: "distinct (typing it) \<Longrightarrow> distinct (typing (AddTyping imps it))"
  by (induction imps arbitrary: it) (auto simp: containsString_set)

lemma distinct_pydantic_AddPydantic:
  "distinct (pydantic it) \<Longrightarrow> distinct (pydantic (AddPydantic imps it))"
  by (induction imps arbitrary: it) (auto simp: containsString_set)

text \<open>
  Claim C8. The import tracker is idempotent. For every tracker state \<open>it\<close> and every type
  name \<open>t\<close>, \<open>TrackFieldType\<close> called twice with \<open>t\<close> leaves the state that one call
  leaves, whatever \<open>resolveFieldType\<close> answers. \<open>AddTyping\<close> and \<open>AddPydantic\<close> called
  twice with the same arguments leave the state of one call; an import that the list
  already holds keeps its number of occurrences; and a list without duplicates stays
  without duplicates.
\<close>

theorem import_tracker_idempotent:
  "TrackFieldType h t (TrackFieldType h t it) = TrackFieldType h t it
   \<and> AddTyping imps (AddTyping imps it) = AddTyping imps it
   \<and> AddPydantic imps (AddPydantic imps it) = AddPydantic imps it
   \<and> (\<forall>x \<in> set (typing it). count_list (typing (AddTyping imps it)) x = count_list (typing it) x)
   \<and> (\<forall>x \<in> set (pydantic it).
         count_list (pydantic (AddPydantic imps it)) x = count_list (pydantic it) x)
   \<and> (distinct (typing it) \<longrightarrow> distinct (typing (AddTyping imps it)))
   \<and> (distinct (pydantic it) \<longrightarrow> distinct (pydantic (AddPydantic imps it)))"
  by (simp add: TrackFieldType_idem AddTyping_idem AddPydantic_idem count_typing_AddTyping
      count_pydantic_AddPydantic distinct_typing_AddTyping distinct_pydantic_AddPydantic)

theorem import_tracker_idempotent_witness:
  "typing exampleTracker = [''Optional''] \<and> pydantic exampleTracker = [''BaseModel'']
   \<and> TrackFieldType refHelpers ''Optional[List[Person]]''
        (TrackFieldType refHelpers ''Optional[List[Person]]'' exampleTracker)
      = TrackFieldType refHelpers ''Optional[List[Person]]'' exampleTracker
   \<and> count_list (typing (AddTyping [''List'', ''Optional'', ''List''] exampleTracker)) ''Optional'' = 1
   \<and> count_list (pydantic (AddPydantic [''BaseModel'', ''Field''] exampleTracker)) ''BaseModel'' = 1
   \<and> distinct (typing (AddTyping [''List'', ''Optional'', ''List''] exampleTracker))
   \<and> distinct (pydantic (AddPydantic [''BaseModel'', ''Field''] exampleTracker))"
  using import_tracker_idempotent [of refHelpers "''Optional[List[Person]]''" exampleTracker
      "[''List'', ''Optional'', ''List'']"]
    import_tracker_idempotent [of refHelpers "''Optional[List[Person]]''" exampleTracker
      "[''BaseModel'', ''Field'']"]
  by (simp add: exampleTracker_def NewImportTracker_def)

section \<open>The content builder\<close>

lemma Line_simps:
  "buf (Line s cb) = buf cb @ [pad cb s]" "level (Line s cb) = level cb"
  "indentStr (Line s cb) = indentStr cb"
  by (simp_all add: Line_def)

lemma Lines_simps:
  "buf (Lines ls cb) = buf cb @ map (pad cb) ls" "level (Lines ls cb) = level cb"
  "indentStr (Lines ls cb) = indentStr cb"
  by (induction ls arbitrary: cb; simp add: Line_simps pad_def)+

lemma Indent_simps:
  "buf (Indent cb) = buf cb" "level (Indent cb) = Suc (level cb)" "indentStr (Indent cb) = indentStr cb"
  by (simp_all add: Indent_def)

lemma Dedent_simps:
  "buf (Dedent cb) = buf cb" "level (Dedent cb) = level cb - 1" "indentStr (Dedent cb) = indentStr cb"
  by (simp_all add: Dedent_def)

lemma NewContentBuilder_simps:
  "buf (NewContentBuilder i) = []" "level (NewContentBuilder i) = 0"
  "indentStr (NewContentBuilder i) = i"
  by (simp_all add: NewContentBuilder_def)

lemmas builder_simps =
  Line_simps Lines_simps Indent_simps Dedent_simps NewContentBuilder_simps pad_def

section \<open>The import section\<close>

lemma sort_eq_Nil: "(sort xs = []) = (xs = ([] :: string list))"
  by (metis length_sort length_0_conv)

lemma sort_visit_order: "isVisitOrder ks m \<Longrightarrow> sort ks = sorted_list_of_fset m"
  unfolding isVisitOrder_def
  by (metis sorted_list_of_fset.rep_eq sorted_list_of_set_sort_remdups distinct_remdups_id)

lemma visit_order_empty: "isVisitOrder ks {||} \<Longrightarrow> ks = []"
  by (simp add: isVisitOrder_def)

lemma isVisitOrder_sorted_list: "isVisitOrder (sorted_list_of_fset m) m"
  by (simp add: isVisitOrder_def sorted_list_of_fset.rep_eq)

lemma replicate_step: "concat (replicate n s) @ s @ t = s @ concat (replicate n s) @ t"
  by (induction n) simp_all

lemma sorted_list_of_fset_empty: "sorted_list_of_fset {||} = []"
  by (simp add: sorted_list_of_fset.rep_eq)

lemma Generate_buf:
  assumes "isVisitOrder es (enums it)" "isVisitOrder ms (models it)"
  shows "buf (snd (Generate h es ms it cb))
           = buf cb @ importSection h it (concat (replicate (level cb) (indentStr cb))) (indentStr cb)"
proof -
  have e: "sort es = sorted_list_of_fset (enums it)" using assms(1) by (rule sort_visit_order)
  have m: "sort ms = sorted_list_of_fset (models it)" using assms(2) by (rule sort_visit_order)
  show ?thesis
    by (simp add: Generate_def Let_def importSection_def builder_simps e m sorted_list_of_fset_empty sort_eq_Nil
        enumImportLine_def modelImportLine_def replicate_step comp_def)
qed

lemma Generate_level: "level (snd (Generate h es ms it cb)) = level cb"
  by (simp add: Generate_def Let_def builder_simps)

lemma Generate_indentStr: "indentStr (snd (Generate h es ms it cb)) = indentStr cb"
  by (simp add: Generate_def Let_def builder_simps)

lemma Generate_any_order:
  assumes "isVisitOrder es (enums it)" "isVisitOrder ms (models it)"
    "isVisitOrder es' (enums it)" "isVisitOrder ms' (models it)" "mset ts = mset (typing it)"
  shows "snd (Generate h es' ms' (it\<lparr>typing := ts\<rparr>) cb) = snd (Generate h es ms it cb)"
proof -
  have s: "sort ts = sort (typing it)"
    using assms(5) by (metis properties_for_sort sorted_sort mset_sort)
  have n: "(ts = []) = (typing it = [])"
    using assms(5) by (metis mset_zero_iff)
  have e: "sort es' = sort es" using assms(1,3) by (simp add: sort_visit_order)
  have m: "sort ms' = sort ms" using assms(2,4) by (simp add: sort_visit_order)
  show ?thesis by (simp add: Generate_def Let_def s n e m)
qed

text \<open>
  Claim C9. Let \<open>es\<close> and \<open>ms\<close> be the orders in which the two loops of \<open>Generate\<close>
  visit the enum map and the model map of a tracker state. Then \<open>Generate\<close> appends to
  the builder exactly the lines of \<open>importSection\<close>, in this order: the \<open>pydantic\<close>
  line, the \<open>typing\<close> line with its names sorted, the \<open>datetime\<close> line, one line per
  enum with the enums sorted, an empty line, the guard and one line per model with the
  models sorted. The builder it leaves is the same for every other pair of visit orders
  \<open>es'\<close>, \<open>ms'\<close> and for every order \<open>ts\<close> in which the \<open>typing\<close> names were found.
  The \<open>pydantic\<close> line is not part of that independence: \<open>Generate\<close> does not sort it,
  its names stand in the order in which \<open>AddPydantic\<close> received them.
\<close>

theorem Generate_fixed_order:
  assumes "isVisitOrder es (enums it)" and "isVisitOrder ms (models it)"
    and "isVisitOrder es' (enums it)" and "isVisitOrder ms' (models it)"
    and "mset ts = mset (typing it)"
  shows "buf (snd (Generate h es ms it cb))
           = buf cb @ importSection h it (concat (replicate (level cb) (indentStr cb))) (indentStr cb)
         \<and> snd (Generate h es' ms' (it\<lparr>typing := ts\<rparr>) cb) = snd (Generate h es ms it cb)"
  using assms by (simp add: Generate_buf Generate_any_order)

theorem Generate_fixed_order_witness:
  "isVisitOrder [''Status'', ''Nationality''] (enums staffTracker)
   \<and> isVisitOrder [''Person'', ''Company''] (models staffTracker)
   \<and> isVisitOrder [''Nationality'', ''Status''] (enums staffTracker)
   \<and> isVisitOrder [''Company'', ''Person''] (models staffTracker)
   \<and> typing staffTracker = [''Optional'', ''List'', ''TYPE_CHECKING'']
   \<and> pydantic staffTracker = [''BaseModel'', ''Field'']
   \<and> buf (snd (Generate refHelpers [''Status'', ''Nationality''] [''Person'', ''Company'']
              staffTracker (NewContentBuilder ''    '')))
      = [''from pydantic import BaseModel, Field'',
         ''from typing import List, Optional, TYPE_CHECKING'',
         ''from datetime import datetime'',
         ''from ..enums.nationality import Nationality'',
         ''from ..enums.status import Status'',
         [],
         ''if TYPE_CHECKING:'',
         ''    from .company import Company'',
         ''    from .person import Person'']
   \<and> snd (Generate refHelpers [''Nationality'', ''Status''] [''Company'', ''Person'']
            (staffTracker\<lparr>typing := [''TYPE_CHECKING'', ''Optional'', ''List'']\<rparr>)
            (NewContentBuilder ''    ''))
      = snd (Generate refHelpers [''Status'', ''Nationality''] [''Person'', ''Company'']
               staffTracker (NewContentBuilder ''    ''))
   \<and> buf (snd (Generate refHelpers [] [] fieldFirstTracker (NewContentBuilder ''    '')))
      = [''from pydantic import Field, BaseModel'', []]"
proof -
  have v: "isVisitOrder [''Status'', ''Nationality''] (enums staffTracker)"
    "isVisitOrder [''Person'', ''Company''] (models staffTracker)"
    "isVisitOrder [''Nationality'', ''Status''] (enums staffTracker)"
    "isVisitOrder [''Company'', ''Person''] (models staffTracker)"
    by code_simp+
  have t: "typing staffTracker = [''Optional'', ''List'', ''TYPE_CHECKING'']"
    "pydantic staffTracker = [''BaseModel'', ''Field'']"
    by code_simp+
  have p: "mset [''TYPE_CHECKING'', ''Optional'', ''List''] = mset (typing staffTracker)"
    unfolding t by simp
  have l: "importSection refHelpers staffTracker [] ''    ''
      = [''from pydantic import BaseModel, Field'',
         ''from typing import List, Optional, TYPE_CHECKING'',
         ''from datetime import datetime'',
         ''from ..enums.nationality import Nationality'',
         ''from ..enums.status import Status'',
         [],
         ''if TYPE_CHECKING:'',
         ''    from .company import Company'',
         ''    from .person import Person'']"
    by code_simp
  note T = Generate_fixed_order [of "[''Status'', ''Nationality'']" staffTracker
      "[''Person'', ''Company'']" "[''Nationality'', ''Status'']" "[''Company'', ''Person'']"
      "[''TYPE_CHECKING'', ''Optional'', ''List'']" refHelpers "NewContentBuilder ''    ''",
      OF v p]
  have a: "buf (snd (Generate refHelpers [''Status'', ''Nationality''] [''Person'', ''Company'']
              staffTracker (NewContentBuilder ''    '')))
      = [''from pydantic import BaseModel, Field'',
         ''from typing import List, Optional, TYPE_CHECKING'',
         ''from datetime import datetime'',
         ''from ..enums.nationality import Nationality'',
         ''from ..enums.status import Status'',
         [],
         ''if TYPE_CHECKING:'',
         ''    from .company import Company'',
         ''    from .person import Person'']"
    using T l by (simp add: NewContentBuilder_simps)
  have b: "snd (Generate refHelpers [''Nationality'', ''Status''] [''Company'', ''Person'']
            (staffTracker\<lparr>typing := [''TYPE_CHECKING'', ''Optional'', ''List'']\<rparr>)
            (NewContentBuilder ''    ''))
      = snd (Generate refHelpers [''Status'', ''Nationality''] [''Person'', ''Company'']
               staffTracker (NewContentBuilder ''    ''))"
    using T by blast
  have w: "isVisitOrder [] (enums fieldFirstTracker)" "isVisitOrder [] (models fieldFirstTracker)"
    by code_simp+
  have q: "mset [] = mset (typing fieldFirstTracker)"
    by (simp add: fieldFirstTracker_def NewImportTracker_def AddPydantic_fields)
  have k: "importSection refHelpers fieldFirstTracker [] ''    ''
      = [''from pydantic import Field, BaseModel'', []]"
    by code_simp
  have c: "buf (snd (Generate refHelpers [] [] fieldFirstTracker (NewContentBuilder ''    '')))
      = [''from pydantic import Field, BaseModel'', []]"
    using Generate_fixed_order [of "[]" fieldFirstTracker "[]" "[]" "[]" "[]" refHelpers
        "NewContentBuilder ''    ''", OF w w q] k
    by (simp add: NewContentBuilder_simps)
  show ?thesis using v t a b c by blast
qed

section \<open>The fields of a compiled model\<close>

lemma sortedKeys_set: "set (sortedKeys m) = fst ` set m"
  by (simp add: sortedKeys_def)

lemma sortedKeys_sorted: "sorted (sortedKeys m)" "distinct (sortedKeys m)"
  by (simp_all add: sortedKeys_def)

lemma key_in_sortedKeys: "map_of m k = Some v \<Longrightarrow> k \<in> set (sortedKeys m)"
  by (simp add: sortedKeys_set) (metis fst_conv image_eqI map_of_SomeD)


lemma CompileModel_fields:
  "CompileModel h model r =
     Inr \<lparr>sName = mName model,
          sFields = ownFields h model @ foreignKeys h model @ navigationFields model r\<rparr>"
  by (cases "mRelated model")
    (simp_all add: CompileModel_def Let_def sortedKeys_def ownFields_def foreignKeys_def
      navigationFields_def)

lemma foreignKeyFields_cases:
  "foreignKeyFields h relatedName relation =
     (case relType relation of
        ForOne \<Rightarrow> [\<lparr>fName = ToCamelCase h (relatedName @ ''_id''), fType = BasicType ''str''\<rparr>]
      | ForOnePoly \<Rightarrow>
          [\<lparr>fName = ToCamelCase h (relatedName @ ''_type''), fType = BasicType ''str''\<rparr>,
           \<lparr>fName = ToCamelCase h (relatedName @ ''_id''), fType = BasicType ''str''\<rparr>]
      | ForMany \<Rightarrow> [] | HasOne \<Rightarrow> [] | HasMany \<Rightarrow> []
      | ForManyPoly \<Rightarrow> [] | HasOnePoly \<Rightarrow> [] | HasManyPoly \<Rightarrow> [])"
  by (cases "relType relation") (simp_all add: foreignKeyFields_def Let_def TypeString_def)


lemma foreignKeys_eq:
  "foreignKeys h model =
     concat (map (\<lambda>relatedName.
         case map_of (mRelated model) relatedName of
           None \<Rightarrow> []
         | Some relation \<Rightarrow>
             (case relType relation of
                ForOne \<Rightarrow> [\<lparr>fName = ToCamelCase h (relatedName @ ''_id''), fType = BasicType ''str''\<rparr>]
              | ForOnePoly \<Rightarrow>
                  [\<lparr>fName = ToCamelCase h (relatedName @ ''_type''), fType = BasicType ''str''\<rparr>,
                   \<lparr>fName = ToCamelCase h (relatedName @ ''_id''), fType = BasicType ''str''\<rparr>]
              | ForMany \<Rightarrow> [] | HasOne \<Rightarrow> [] | HasMany \<Rightarrow> []
              | ForManyPoly \<Rightarrow> [] | HasOnePoly \<Rightarrow> [] | HasManyPoly \<Rightarrow> []))
       (sortedKeys (mRelated model)))"
  unfolding foreignKeys_def relatedForeignKeys_def foreignKeyFields_cases ..

text \<open>
  Claim C4. \<open>CompileModel\<close> never fails. The fields of its result are the model's own
  fields, then the foreign keys, then the navigation fields. The foreign keys are what
  the relations add, one relation after the other in the sorted order of their names,
  and what a relation adds depends on its kind alone: a plain \<open>ForOne\<close> adds one field of
  string type, a \<open>ForOnePoly\<close> adds two fields of string type, the type before the id,
  and each of the six other kinds adds nothing. The struct holds the fields under the
  names \<open>ToCamelCase\<close> of \<open>relation_id\<close> and of \<open>relation_type\<close>; the declaration
  shows the snake case of these. Every relation of the model is among the sorted names,
  once.
\<close>

theorem foreign_key_contributions:
  "CompileModel h model r =
     Inr \<lparr>sName = mName model,
          sFields =
            ownFields h model
            @ concat (map (\<lambda>relatedName.
                  case map_of (mRelated model) relatedName of
                    None \<Rightarrow> []
                  | Some relation \<Rightarrow>
                      (case relType relation of
                         ForOne \<Rightarrow>
                           [\<lparr>fName = ToCamelCase h (relatedName @ ''_id''), fType = BasicType ''str''\<rparr>]
                       | ForOnePoly \<Rightarrow>
                           [\<lparr>fName = ToCamelCase h (relatedName @ ''_type''), fType = BasicType ''str''\<rparr>,
                            \<lparr>fName = ToCamelCase h (relatedName @ ''_id''), fType = BasicType ''str''\<rparr>]
                       | ForMany \<Rightarrow> [] | HasOne \<Rightarrow> [] | HasMany \<Rightarrow> []
                       | ForManyPoly \<Rightarrow> [] | HasOnePoly \<Rightarrow> [] | HasManyPoly \<Rightarrow> []))
                (sortedKeys (mRelated model)))
            @ navigationFields model r\<rparr>
   \<and> sorted (sortedKeys (mRelated model)) \<and> distinct (sortedKeys (mRelated model))
   \<and> (map_of (mRelated model) relatedName = Some relation \<longrightarrow>
         relatedName \<in> set (sortedKeys (mRelated model)))"
  using foreignKeys_eq [of h model]
  by (simp add: CompileModel_fields sortedKeys_sorted key_in_sortedKeys)

theorem foreign_key_contributions_witness:
  "map_of (mRelated allKindsModel) ''Owner'' = Some (plainRelation ForOne)
   \<and> ''Owner'' \<in> set (sortedKeys (mRelated allKindsModel))
   \<and> sortedKeys (mRelated allKindsModel)
       = [''Badge'', ''Comment'', ''Cover'', ''Member'', ''Owner'', ''Subject'', ''Tag'', ''Topic'']
   \<and> CompileModel refHelpers allKindsModel companyRegistry =
       Inr \<lparr>sName = ''Hub'',
            sFields =
              [\<lparr>fName = ''ID'', fType = BasicType ''int''\<rparr>]
              @ [\<lparr>fName = ''OwnerId'', fType = BasicType ''str''\<rparr>,
                 \<lparr>fName = ''SubjectType'', fType = BasicType ''str''\<rparr>,
                 \<lparr>fName = ''SubjectId'', fType = BasicType ''str''\<rparr>]
              @ navigationFields allKindsModel companyRegistry\<rparr>
   \<and> navigationFields allKindsModel companyRegistry
       = [\<lparr>fName = ''_nav_Badge'', fType = BasicType ''Badge''\<rparr>,
          \<lparr>fName = ''_nav_Comment'', fType = ArrayType (BasicType ''Any'')\<rparr>,
          \<lparr>fName = ''_nav_Cover'', fType = BasicType ''Any''\<rparr>,
          \<lparr>fName = ''_nav_Member'', fType = ArrayType (BasicType ''Member'')\<rparr>,
          \<lparr>fName = ''_nav_Owner'', fType = BasicType ''Owner''\<rparr>,
          \<lparr>fName = ''_nav_Subject'',
           fType = BasicType (''Union['' @ [CHR 0x27] @ ''Person'' @ [CHR 0x27] @ '', ''
                              @ [CHR 0x27] @ ''Company'' @ [CHR 0x27] @ '']'')\<rparr>,
          \<lparr>fName = ''_nav_Tag'', fType = ArrayType (BasicType ''Tag'')\<rparr>,
          \<lparr>fName = ''_nav_Topic'',
           fType = ArrayType (BasicType (''Union['' @ [CHR 0x27] @ ''Person'' @ [CHR 0x27] @ '']''))\<rparr>]
   \<and> SanitizePythonIdentifier refHelpers (ToSnakeCase refHelpers (ToCamelCase refHelpers ''Owner_id''))
       = ''owner_id''
   \<and> SanitizePythonIdentifier refHelpers (ToSnakeCase refHelpers (ToCamelCase refHelpers ''Subject_type''))
       = ''subject_type''
   \<and> SanitizePythonIdentifier refHelpers (ToSnakeCase refHelpers (ToCamelCase refHelpers ''Subject_id''))
       = ''subject_id''"
proof -
  have 1: "map_of (mRelated allKindsModel) ''Owner'' = Some (plainRelation ForOne)"
    by (simp add: allKindsModel_def)
  note T = foreign_key_contributions [of refHelpers allKindsModel companyRegistry "''Owner''"
      "plainRelation ForOne"]
  have 2: "''Owner'' \<in> set (sortedKeys (mRelated allKindsModel))"
    using T 1 by blast
  have 3: "sortedKeys (mRelated allKindsModel)
       = [''Badge'', ''Comment'', ''Cover'', ''Member'', ''Owner'', ''Subject'', ''Tag'', ''Topic'']"
    by code_simp
  have 4: "ownFields refHelpers allKindsModel = [\<lparr>fName = ''ID'', fType = BasicType ''int''\<rparr>]"
    by code_simp
  have 5: "concat (map (\<lambda>relatedName.
                  case map_of (mRelated allKindsModel) relatedName of
                    None \<Rightarrow> []
                  | Some relation \<Rightarrow>
                      (case relType relation of
                         ForOne \<Rightarrow>
                           [\<lparr>fName = ToCamelCase refHelpers (relatedName @ ''_id''), fType = BasicType ''str''\<rparr>]
                       | ForOnePoly \<Rightarrow>
                           [\<lparr>fName = ToCamelCase refHelpers (relatedName @ ''_type''), fType = BasicType ''str''\<rparr>,
                            \<lparr>fName = ToCamelCase refHelpers (relatedName @ ''_id''), fType = BasicType ''str''\<rparr>]
                       | ForMany \<Rightarrow> [] | HasOne \<Rightarrow> [] | HasMany \<Rightarrow> []
                       | ForManyPoly \<Rightarrow> [] | HasOnePoly \<Rightarrow> [] | HasManyPoly \<Rightarrow> []))
                (sortedKeys (mRelated allKindsModel)))
      = [\<lparr>fName = ''OwnerId'', fType = BasicType ''str''\<rparr>,
         \<lparr>fName = ''SubjectType'', fType = BasicType ''str''\<rparr>,
         \<lparr>fName = ''SubjectId'', fType = BasicType ''str''\<rparr>]"
    by code_simp
  have 6: "mName allKindsModel = ''Hub''" by (simp add: allKindsModel_def)
  have 7: "CompileModel refHelpers allKindsModel companyRegistry =
       Inr \<lparr>sName = ''Hub'',
            sFields =
              [\<lparr>fName = ''ID'', fType = BasicType ''int''\<rparr>]
              @ [\<lparr>fName = ''OwnerId'', fType = BasicType ''str''\<rparr>,
                 \<lparr>fName = ''SubjectType'', fType = BasicType ''str''\<rparr>,
                 \<lparr>fName = ''SubjectId'', fType = BasicType ''str''\<rparr>]
              @ navigationFields allKindsModel companyRegistry\<rparr>"
    using T by (simp only: 4 5 6)
  have 8: "navigationFields allKindsModel companyRegistry
       = [\<lparr>fName = ''_nav_Badge'', fType = BasicType ''Badge''\<rparr>,
          \<lparr>fName = ''_nav_Comment'', fType = ArrayType (BasicType ''Any'')\<rparr>,
          \<lparr>fName = ''_nav_Cover'', fType = BasicType ''Any''\<rparr>,
          \<lparr>fName = ''_nav_Member'', fType = ArrayType (BasicType ''Member'')\<rparr>,
          \<lparr>fName = ''_nav_Owner'', fType = BasicType ''Owner''\<rparr>,
          \<lparr>fName = ''_nav_Subject'',
           fType = BasicType (''Union['' @ [CHR 0x27] @ ''Person'' @ [CHR 0x27] @ '', ''
                              @ [CHR 0x27] @ ''Company'' @ [CHR 0x27] @ '']'')\<rparr>,
          \<lparr>fName = ''_nav_Tag'', fType = ArrayType (BasicType ''Tag'')\<rparr>,
          \<lparr>fName = ''_nav_Topic'',
           fType = ArrayType (BasicType (''Union['' @ [CHR 0x27] @ ''Person'' @ [CHR 0x27] @ '']''))\<rparr>]"
    by code_simp
  have 9: "SanitizePythonIdentifier refHelpers (ToSnakeCase refHelpers (ToCamelCase refHelpers ''Owner_id''))
       = ''owner_id''"
    "SanitizePythonIdentifier refHelpers (ToSnakeCase refHelpers (ToCamelCase refHelpers ''Subject_type''))
       = ''subject_type''"
    "SanitizePythonIdentifier refHelpers (ToSnakeCase refHelpers (ToCamelCase refHelpers ''Subject_id''))
       = ''subject_id''"
    by code_simp+
  show ?thesis using 1 2 3 7 8 9 by blast
qed

section \<open>Through references that nothing resolves\<close>






section \<open>The lines of a model declaration\<close>

lemma scanField_simps:
  "needsModelConfig (scanField h r f st) = (needsModelConfig st \<or> (\<not> isNav f \<and> isEnumField h r f))"
  "hasPolymorphicTypeField (scanField h r f st)
     = (hasPolymorphicTypeField st \<or> (\<not> isNav f \<and> isPolyTypeField f))"
  "polymorphicTypeToNavMap (scanField h r f st) n
     = (if \<not> isNav f \<and> isPolyTypeField f \<and> fName f = n
        then Some (''_nav_'' @ TrimSuffix n ''_type'') else polymorphicTypeToNavMap st n)"
  by (auto simp: scanField_def Let_def)


lemma scanFields_polyMap:
  "polymorphicTypeToNavMap (scanFields h r fs st) n
     = (if n \<in> polyTypeNames fs then Some (''_nav_'' @ TrimSuffix n ''_type'')
        else polymorphicTypeToNavMap st n)"
  by (induction fs arbitrary: st) (auto simp: scanField_simps polyTypeNames_def)


lemma scanModel_polyMap:
  "polymorphicTypeToNavMap (scanModel h model mc r) n
     = (if n \<in> polyTypeNames (sFields model) then Some (''_nav_'' @ TrimSuffix n ''_type'') else None)"
  by (simp add: scanModel_def Let_def scanFields_polyMap)

lemma pad_eq: "pad cb = (@) (concat (replicate (level cb) (indentStr cb)))"
  by (rule ext) (simp add: pad_def)

lemma generateModelBuilder_buf:
  "buf (generateModelBuilder h model config mc r) =
     importSection h (modelImports h model config mc r) [] ''    ''
     @ [[], ''class '' @ sName model @ ''(BaseModel):'',
        ''    '' @ tripleQuote @ sName model @ '' model.'' @ tripleQuote]
     @ (if sFields model = [] then [''    pass'']
        else map (\<lambda>f. ''    '' @ dataFieldLine h config model
                                  (polymorphicTypeToNavMap (scanModel h model mc r)) f)
               (filter (\<lambda>f. \<not> isNav f) (sFields model))
             @ concat (map (\<lambda>f. map ((@) ''    '') (navFieldLine h model f))
                         (filter isNav (sFields model)))
             @ modelConfigLines config (needsModelConfig (scanModel h model mc r)))"
  by (simp add: generateModelBuilder_def Let_def modelConfigBlock_def modelConfigLines_def
      builder_simps pad_eq Generate_buf Generate_level Generate_indentStr isVisitOrder_sorted_list
      dataFieldLines_def navFieldLines_def configV2Lines_def configV1Lines_def map_concat comp_def)

section \<open>The order of the fields\<close>












section \<open>The line of a data field\<close>

lemma drop_eq_suffix: "(drop (length ys - length xs) ys = xs) = suffix xs ys"
proof
  assume "drop (length ys - length xs) ys = xs"
  then have "ys = take (length ys - length xs) ys @ xs" by (metis append_take_drop_id)
  then show "suffix xs ys" by (metis suffixI)
next
  assume "suffix xs ys"
  then obtain zs where "ys = zs @ xs" by (auto simp: suffix_def)
  then show "drop (length ys - length xs) ys = xs" by simp
qed

lemma drop3_id: "(drop (length n - 3) n = ''_id'') = HasSuffix n ''_id''"
  using drop_eq_suffix [of n "''_id''"] by (simp add: HasSuffix_def numeral_3_eq_3)

lemma polyTypeNames_iff:
  "(n \<in> polyTypeNames fs)
     = (\<exists>g \<in> set fs. \<not> HasPrefix (fName g) ''_nav_'' \<and> HasSuffix (fName g) ''_type''
          \<and> GetName (fType g) = ''str'' \<and> fName g = n)"
  by (auto simp: polyTypeNames_def isNav_def isPolyTypeField_def)

lemma data_line_in_buf:
  assumes "field \<in> set (sFields model)" "\<not> HasPrefix (fName field) ''_nav_''"
  shows "''    '' @ dataFieldLine h config model (polymorphicTypeToNavMap (scanModel h model mc r)) field
           \<in> set (buf (generateModelBuilder h model config mc r))"
proof -
  have n: "sFields model \<noteq> []" using assms(1) by auto
  have "field \<in> set (filter (\<lambda>f. \<not> isNav f) (sFields model))"
    using assms by (simp add: isNav_def)
  then show ?thesis
    unfolding generateModelBuilder_buf using n by auto
qed

lemma dataFieldLine_cases:
  "dataFieldLine h config model (polymorphicTypeToNavMap (scanModel h model mc r)) field =
     (if \<not> AddTypeHints config
      then SanitizePythonIdentifier h (ToSnakeCase h (fName field)) @ '' = None''
      else if fName field \<in> polyTypeNames (sFields model)
      then (if allowedTypes model (''_nav_'' @ TrimSuffix (fName field) ''_type'') \<noteq> []
            then SanitizePythonIdentifier h (ToSnakeCase h (fName field)) @ '': Literal[''
                 @ Join (allowedTypes model (''_nav_'' @ TrimSuffix (fName field) ''_type'')) '', ''
                 @ '']''
            else SanitizePythonIdentifier h (ToSnakeCase h (fName field)) @ '': str'')
      else if length (SanitizePythonIdentifier h (ToSnakeCase h (fName field))) > 3
              \<and> (HasSuffix (SanitizePythonIdentifier h (ToSnakeCase h (fName field))) ''_id''
                   \<or> HasSuffix (SanitizePythonIdentifier h (ToSnakeCase h (fName field))) ''_type'')
      then SanitizePythonIdentifier h (ToSnakeCase h (fName field)) @ '': Optional[''
           @ GetName (fType field) @ ''] = None''
      else SanitizePythonIdentifier h (ToSnakeCase h (fName field)) @ '': '' @ GetName (fType field))"
  by (simp add: dataFieldLine_def Let_def scanModel_polyMap drop3_id)


text \<open>
  Claim C10, amended. Type hints are enabled. Let \<open>field\<close> be a data field of the
  struct (its name does not begin with \<open>_nav_\<close>), and let its sanitized snake-case name
  be longer than three characters and end in \<open>_id\<close> or \<open>_type\<close>. If no data field of
  the struct with the name of \<open>field\<close> ends in \<open>_type\<close> and has the type \<open>str\<close>, the
  declaration holds the line \<open>name: Optional[T] = None\<close> for it, also when the field
  is one of the Definition's own and no foreign key. If there is such a data field, the
  scan has entered the name as a type discriminator, and the line is \<open>name: Literal[...]\<close>
  with the members of the Union of the navigation field, or \<open>name: str\<close> when there is no
  such Union: a line without \<open>Optional\<close> and without a default.
\<close>

theorem id_and_type_fields_optional:
  assumes "AddTypeHints config"
    and "field \<in> set (sFields model)"
    and "\<not> HasPrefix (fName field) ''_nav_''"
    and "length (SanitizePythonIdentifier h (ToSnakeCase h (fName field))) > 3"
    and "HasSuffix (SanitizePythonIdentifier h (ToSnakeCase h (fName field))) ''_id''
         \<or> HasSuffix (SanitizePythonIdentifier h (ToSnakeCase h (fName field))) ''_type''"
  shows "((\<forall>g \<in> set (sFields model).
             fName g = fName field \<and> \<not> HasPrefix (fName g) ''_nav_'' \<longrightarrow>
             \<not> (HasSuffix (fName g) ''_type'' \<and> GetName (fType g) = ''str'')) \<longrightarrow>
            ''    '' @ SanitizePythonIdentifier h (ToSnakeCase h (fName field)) @ '': Optional[''
              @ GetName (fType field) @ ''] = None''
            \<in> set (buf (generateModelBuilder h model config mc r)))
         \<and> (HasSuffix (fName field) ''_type'' \<and> GetName (fType field) = ''str'' \<longrightarrow>
              dataFieldLine h config model (polymorphicTypeToNavMap (scanModel h model mc r)) field
                = (if allowedTypes model (''_nav_'' @ TrimSuffix (fName field) ''_type'') \<noteq> []
                   then SanitizePythonIdentifier h (ToSnakeCase h (fName field)) @ '': Literal[''
                        @ Join (allowedTypes model (''_nav_'' @ TrimSuffix (fName field) ''_type'')) '', ''
                        @ '']''
                   else SanitizePythonIdentifier h (ToSnakeCase h (fName field)) @ '': str'')
              \<and> ''    '' @ dataFieldLine h config model
                              (polymorphicTypeToNavMap (scanModel h model mc r)) field
                  \<in> set (buf (generateModelBuilder h model config mc r)))"
proof -
  let ?line = "dataFieldLine h config model (polymorphicTypeToNavMap (scanModel h model mc r)) field"
  have b: "''    '' @ ?line \<in> set (buf (generateModelBuilder h model config mc r))"
    using assms(2,3) by (rule data_line_in_buf)
  have 1: "?line = SanitizePythonIdentifier h (ToSnakeCase h (fName field)) @ '': Optional[''
              @ GetName (fType field) @ ''] = None''"
    if "\<forall>g \<in> set (sFields model).
             fName g = fName field \<and> \<not> HasPrefix (fName g) ''_nav_'' \<longrightarrow>
             \<not> (HasSuffix (fName g) ''_type'' \<and> GetName (fType g) = ''str'')"
  proof -
    have "fName field \<notin> polyTypeNames (sFields model)"
      using that by (auto simp: polyTypeNames_iff)
    then show ?thesis using assms(1,4,5) by (simp add: dataFieldLine_cases)
  qed
  have 2: "?line = (if allowedTypes model (''_nav_'' @ TrimSuffix (fName field) ''_type'') \<noteq> []
                   then SanitizePythonIdentifier h (ToSnakeCase h (fName field)) @ '': Literal[''
                        @ Join (allowedTypes model (''_nav_'' @ TrimSuffix (fName field) ''_type'')) '', ''
                        @ '']''
                   else SanitizePythonIdentifier h (ToSnakeCase h (fName field)) @ '': str'')"
    if "HasSuffix (fName field) ''_type'' \<and> GetName (fType field) = ''str''"
  proof -
    have "fName field \<in> polyTypeNames (sFields model)"
      using that assms(2,3) by (auto simp: polyTypeNames_iff)
    then show ?thesis using assms(1) by (simp add: dataFieldLine_cases)
  qed
  show ?thesis using b 1 2 by auto
qed

theorem id_and_type_fields_optional_witness:
  "AddTypeHints hintsConfig
   \<and> \<lparr>fName = ''TaxID'', fType = BasicType ''str''\<rparr> \<in> set (sFields companyStruct)
   \<and> SanitizePythonIdentifier refHelpers (ToSnakeCase refHelpers ''TaxID'') = ''tax_id''
   \<and> ''    tax_id: Optional[str] = None''
       \<in> set (buf (generateModelBuilder refHelpers companyStruct hintsConfig plainMorpheConfig
                 companyRegistry))
   \<and> \<lparr>fName = ''subject_type'', fType = BasicType ''str''\<rparr> \<in> set (sFields noteStruct)
   \<and> ''    subject_type: Literal['' @ [CHR 0x22] @ ''Person'' @ [CHR 0x22] @ '', ''
         @ [CHR 0x22] @ ''Company'' @ [CHR 0x22] @ '']''
       \<in> set (buf (generateModelBuilder refHelpers noteStruct hintsConfig plainMorpheConfig
                 companyRegistry))
   \<and> \<lparr>fName = ''account_type'', fType = BasicType ''str''\<rparr> \<in> set (sFields accountStruct)
   \<and> ''    account_type: str''
       \<in> set (buf (generateModelBuilder refHelpers accountStruct hintsConfig plainMorpheConfig
                 companyRegistry))"
proof -
  have h: "AddTypeHints hintsConfig" by (simp add: hintsConfig_def)
  let ?tax = "\<lparr>fName = ''TaxID'', fType = BasicType ''str''\<rparr>"
  have t1: "?tax \<in> set (sFields companyStruct)" by (simp add: companyStruct_def)
  have t2: "\<not> HasPrefix (fName ?tax) ''_nav_''" by code_simp
  have t3: "SanitizePythonIdentifier refHelpers (ToSnakeCase refHelpers ''TaxID'') = ''tax_id''"
    by code_simp
  have t4: "length (SanitizePythonIdentifier refHelpers (ToSnakeCase refHelpers (fName ?tax))) > 3"
    "HasSuffix (SanitizePythonIdentifier refHelpers (ToSnakeCase refHelpers (fName ?tax))) ''_id''
     \<or> HasSuffix (SanitizePythonIdentifier refHelpers (ToSnakeCase refHelpers (fName ?tax))) ''_type''"
    by code_simp+
  have t5: "\<forall>g \<in> set (sFields companyStruct).
             fName g = fName ?tax \<and> \<not> HasPrefix (fName g) ''_nav_'' \<longrightarrow>
             \<not> (HasSuffix (fName g) ''_type'' \<and> GetName (fType g) = ''str'')"
    by code_simp
  have T: "''    tax_id: Optional[str] = None''
       \<in> set (buf (generateModelBuilder refHelpers companyStruct hintsConfig plainMorpheConfig
                 companyRegistry))"
  proof -
    have "''    '' @ SanitizePythonIdentifier refHelpers (ToSnakeCase refHelpers (fName ?tax))
            @ '': Optional['' @ GetName (fType ?tax) @ ''] = None''
          \<in> set (buf (generateModelBuilder refHelpers companyStruct hintsConfig plainMorpheConfig
                 companyRegistry))"
      using id_and_type_fields_optional [of hintsConfig ?tax companyStruct refHelpers
          plainMorpheConfig companyRegistry, OF h t1 t2 t4] t5
      by blast
    then show ?thesis by (simp add: t3)
  qed
  let ?sub = "\<lparr>fName = ''subject_type'', fType = BasicType ''str''\<rparr>"
  have s1: "?sub \<in> set (sFields noteStruct)" by (simp add: noteStruct_def)
  have s2: "\<not> HasPrefix (fName ?sub) ''_nav_''" by code_simp
  have s4: "length (SanitizePythonIdentifier refHelpers (ToSnakeCase refHelpers (fName ?sub))) > 3"
    "HasSuffix (SanitizePythonIdentifier refHelpers (ToSnakeCase refHelpers (fName ?sub))) ''_id''
     \<or> HasSuffix (SanitizePythonIdentifier refHelpers (ToSnakeCase refHelpers (fName ?sub))) ''_type''"
    by code_simp+
  have s5: "HasSuffix (fName ?sub) ''_type'' \<and> GetName (fType ?sub) = ''str''" by code_simp
  have s6: "dataFieldLine refHelpers hintsConfig noteStruct
              (polymorphicTypeToNavMap (scanModel refHelpers noteStruct plainMorpheConfig companyRegistry))
              ?sub
            = ''subject_type: Literal['' @ [CHR 0x22] @ ''Person'' @ [CHR 0x22] @ '', ''
                @ [CHR 0x22] @ ''Company'' @ [CHR 0x22] @ '']''"
    by code_simp
  have S: "''    subject_type: Literal['' @ [CHR 0x22] @ ''Person'' @ [CHR 0x22] @ '', ''
         @ [CHR 0x22] @ ''Company'' @ [CHR 0x22] @ '']''
       \<in> set (buf (generateModelBuilder refHelpers noteStruct hintsConfig plainMorpheConfig
                 companyRegistry))"
  proof -
    have "''    '' @ dataFieldLine refHelpers hintsConfig noteStruct
              (polymorphicTypeToNavMap (scanModel refHelpers noteStruct plainMorpheConfig companyRegistry))
              ?sub
          \<in> set (buf (generateModelBuilder refHelpers noteStruct hintsConfig plainMorpheConfig
                 companyRegistry))"
      using id_and_type_fields_optional [of hintsConfig ?sub noteStruct refHelpers
          plainMorpheConfig companyRegistry, OF h s1 s2 s4] s5
      by blast
    then show ?thesis unfolding s6 by simp
  qed
  let ?acc = "\<lparr>fName = ''account_type'', fType = BasicType ''str''\<rparr>"
  have a1: "?acc \<in> set (sFields accountStruct)" by (simp add: accountStruct_def)
  have a2: "\<not> HasPrefix (fName ?acc) ''_nav_''" by code_simp
  have a4: "length (SanitizePythonIdentifier refHelpers (ToSnakeCase refHelpers (fName ?acc))) > 3"
    "HasSuffix (SanitizePythonIdentifier refHelpers (ToSnakeCase refHelpers (fName ?acc))) ''_id''
     \<or> HasSuffix (SanitizePythonIdentifier refHelpers (ToSnakeCase refHelpers (fName ?acc))) ''_type''"
    by code_simp+
  have a5: "HasSuffix (fName ?acc) ''_type'' \<and> GetName (fType ?acc) = ''str''" by code_simp
  have a6: "dataFieldLine refHelpers hintsConfig accountStruct
              (polymorphicTypeToNavMap (scanModel refHelpers accountStruct plainMorpheConfig companyRegistry))
              ?acc
            = ''account_type: str''"
    by code_simp
  have A: "''    account_type: str''
       \<in> set (buf (generateModelBuilder refHelpers accountStruct hintsConfig plainMorpheConfig
                 companyRegistry))"
  proof -
    have "''    '' @ dataFieldLine refHelpers hintsConfig accountStruct
              (polymorphicTypeToNavMap (scanModel refHelpers accountStruct plainMorpheConfig companyRegistry))
              ?acc
          \<in> set (buf (generateModelBuilder refHelpers accountStruct hintsConfig plainMorpheConfig
                 companyRegistry))"
      using id_and_type_fields_optional [of hintsConfig ?acc accountStruct refHelpers
          plainMorpheConfig companyRegistry, OF h a1 a2 a4] a5
      by blast
    then show ?thesis unfolding a6 by simp
  qed
  show ?thesis using h t1 t3 T s1 S a1 A by blast
qed

theorem own_type_field_not_optional:
  "CompileModel refHelpers accountModel companyRegistry =
     Inr \<lparr>sName = ''Account'',
          sFields = [\<lparr>fName = ''TaxID'', fType = BasicType ''str''\<rparr>,
                     \<lparr>fName = ''account_type'', fType = BasicType ''str''\<rparr>]\<rparr>
   \<and> accountStruct =
       \<lparr>sName = ''Account'',
        sFields = [\<lparr>fName = ''TaxID'', fType = BasicType ''str''\<rparr>,
                   \<lparr>fName = ''account_type'', fType = BasicType ''str''\<rparr>]\<rparr>
   \<and> AddTypeHints hintsConfig
   \<and> SanitizePythonIdentifier refHelpers (ToSnakeCase refHelpers ''account_type'') = ''account_type''
   \<and> length ''account_type'' > 3 \<and> HasSuffix ''account_type'' ''_type''
   \<and> buf (generateModelBuilder refHelpers accountStruct hintsConfig plainMorpheConfig companyRegistry)
       = [''from pydantic import BaseModel'',
          ''from typing import Literal, Optional'',
          [],
          [],
          ''class Account(BaseModel):'',
          ''    '' @ tripleQuote @ ''Account model.'' @ tripleQuote,
          ''    tax_id: Optional[str] = None'',
          ''    account_type: str'']"
  by code_simp






section \<open>The configuration block\<close>









section \<open>The Company scenario\<close>

text \<open>
  Claim C2, amended. For every type mapping and every registry, \<open>CompileModel\<close> makes of
  \<open>Company\<close> (fields \<open>ID\<close>, \<open>Name\<close>, \<open>TaxID\<close>; relation \<open>Person\<close> of kind
  \<open>HasMany\<close>) a struct of exactly four fields: the three data fields in this order and
  one navigation field \<open>_nav_Person\<close> whose type is an array of \<open>Person\<close>; the relation
  adds no foreign key. The declaration has one line for the navigation field, and its
  name is the sanitized snake case of \<open>Person\<close>, the name of the relation, with no
  plural: \<open>Optional[List[Person]] = None\<close> follows it. With the reference instance
  and type hints the field lines are \<open>id: int\<close>, \<open>name: str\<close>,
  \<open>tax_id: Optional[str] = None\<close> and \<open>person: Optional[List[Person]] = None\<close>.
\<close>

theorem company_declaration:
  "CompileModel h companyModel r =
     Inr \<lparr>sName = ''Company'',
          sFields = [\<lparr>fName = ''ID'', fType = GetFieldType h ''AutoIncrement''\<rparr>,
                     \<lparr>fName = ''Name'', fType = GetFieldType h ''String''\<rparr>,
                     \<lparr>fName = ''TaxID'', fType = GetFieldType h ''String''\<rparr>,
                     \<lparr>fName = ''_nav_Person'', fType = ArrayType (BasicType ''Person'')\<rparr>]\<rparr>
   \<and> navFieldLines h
         \<lparr>sName = ''Company'',
          sFields = [\<lparr>fName = ''ID'', fType = GetFieldType h ''AutoIncrement''\<rparr>,
                     \<lparr>fName = ''Name'', fType = GetFieldType h ''String''\<rparr>,
                     \<lparr>fName = ''TaxID'', fType = GetFieldType h ''String''\<rparr>,
                     \<lparr>fName = ''_nav_Person'', fType = ArrayType (BasicType ''Person'')\<rparr>]\<rparr>
       = [SanitizePythonIdentifier h (ToSnakeCase h ''Person'') @ '': Optional[List[Person]] = None'']
   \<and> CompileModel refHelpers companyModel companyRegistry = Inr companyStruct
   \<and> buf (generateModelBuilder refHelpers companyStruct hintsConfig plainMorpheConfig companyRegistry)
       = [''from pydantic import BaseModel'',
          ''from typing import List, Optional, TYPE_CHECKING'',
          [],
          ''if TYPE_CHECKING:'',
          ''    from .person import Person'',
          [],
          ''class Company(BaseModel):'',
          ''    '' @ tripleQuote @ ''Company model.'' @ tripleQuote,
          ''    id: int'',
          ''    name: str'',
          ''    tax_id: Optional[str] = None'',
          ''    person: Optional[List[Person]] = None'']"
proof -
  have k: "sortedKeys (mFields companyModel) = [''ID'', ''Name'', ''TaxID'']"
    "sortedKeys (mRelated companyModel) = [''Person'']"
    by code_simp+
  have 1: "CompileModel h companyModel r =
     Inr \<lparr>sName = ''Company'',
          sFields = [\<lparr>fName = ''ID'', fType = GetFieldType h ''AutoIncrement''\<rparr>,
                     \<lparr>fName = ''Name'', fType = GetFieldType h ''String''\<rparr>,
                     \<lparr>fName = ''TaxID'', fType = GetFieldType h ''String''\<rparr>,
                     \<lparr>fName = ''_nav_Person'', fType = ArrayType (BasicType ''Person'')\<rparr>]\<rparr>"
    unfolding CompileModel_fields ownFields_def foreignKeys_def navigationFields_def k
    by (simp add: companyModel_def modelField_def relatedForeignKeys_def relatedNavigation_def
        foreignKeyFields_cases navigationField_def navigationType_def plainRelation_def
        GetRelationTargetName_def Let_def)
  have 2: "navFieldLines h
         \<lparr>sName = ''Company'',
          sFields = [\<lparr>fName = ''ID'', fType = GetFieldType h ''AutoIncrement''\<rparr>,
                     \<lparr>fName = ''Name'', fType = GetFieldType h ''String''\<rparr>,
                     \<lparr>fName = ''TaxID'', fType = GetFieldType h ''String''\<rparr>,
                     \<lparr>fName = ''_nav_Person'', fType = ArrayType (BasicType ''Person'')\<rparr>]\<rparr>
       = [SanitizePythonIdentifier h (ToSnakeCase h ''Person'') @ '': Optional[List[Person]] = None'']"
    by (simp add: navFieldLines_def navFieldLine_def isNav_def HasPrefix_def TrimPrefix_def
        hasPolyFields_def Let_def)
  have 3: "CompileModel refHelpers companyModel companyRegistry = Inr companyStruct"
    by code_simp
  have 4: "buf (generateModelBuilder refHelpers companyStruct hintsConfig plainMorpheConfig companyRegistry)
       = [''from pydantic import BaseModel'',
          ''from typing import List, Optional, TYPE_CHECKING'',
          [],
          ''if TYPE_CHECKING:'',
          ''    from .person import Person'',
          [],
          ''class Company(BaseModel):'',
          ''    '' @ tripleQuote @ ''Company model.'' @ tripleQuote,
          ''    id: int'',
          ''    name: str'',
          ''    tax_id: Optional[str] = None'',
          ''    person: Optional[List[Person]] = None'']"
    by code_simp
  show ?thesis by (intro conjI) (rule 1 2 3 4)+
qed

theorem company_declaration_witness:
  "GetFieldType refHelpers ''AutoIncrement'' = BasicType ''int''
   \<and> GetFieldType refHelpers ''String'' = BasicType ''str''
   \<and> SanitizePythonIdentifier refHelpers (ToSnakeCase refHelpers ''Person'') = ''person''
   \<and> CompileModel refHelpers companyModel staffRegistry =
       Inr \<lparr>sName = ''Company'',
            sFields = [\<lparr>fName = ''ID'', fType = BasicType ''int''\<rparr>,
                       \<lparr>fName = ''Name'', fType = BasicType ''str''\<rparr>,
                       \<lparr>fName = ''TaxID'', fType = BasicType ''str''\<rparr>,
                       \<lparr>fName = ''_nav_Person'', fType = ArrayType (BasicType ''Person'')\<rparr>]\<rparr>
   \<and> navFieldLines refHelpers
         \<lparr>sName = ''Company'',
          sFields = [\<lparr>fName = ''ID'', fType = BasicType ''int''\<rparr>,
                     \<lparr>fName = ''Name'', fType = BasicType ''str''\<rparr>,
                     \<lparr>fName = ''TaxID'', fType = BasicType ''str''\<rparr>,
                     \<lparr>fName = ''_nav_Person'', fType = ArrayType (BasicType ''Person'')\<rparr>]\<rparr>
       = [''person: Optional[List[Person]] = None'']"
proof -
  have g: "GetFieldType refHelpers ''AutoIncrement'' = BasicType ''int''"
    "GetFieldType refHelpers ''String'' = BasicType ''str''"
    "SanitizePythonIdentifier refHelpers (ToSnakeCase refHelpers ''Person'') = ''person''"
    by code_simp+
  note T = company_declaration [of refHelpers staffRegistry]
  have 1: "CompileModel refHelpers companyModel staffRegistry =
       Inr \<lparr>sName = ''Company'',
            sFields = [\<lparr>fName = ''ID'', fType = BasicType ''int''\<rparr>,
                       \<lparr>fName = ''Name'', fType = BasicType ''str''\<rparr>,
                       \<lparr>fName = ''TaxID'', fType = BasicType ''str''\<rparr>,
                       \<lparr>fName = ''_nav_Person'', fType = ArrayType (BasicType ''Person'')\<rparr>]\<rparr>"
    using T [THEN conjunct1] unfolding g .
  have 2: "navFieldLines refHelpers
         \<lparr>sName = ''Company'',
          sFields = [\<lparr>fName = ''ID'', fType = BasicType ''int''\<rparr>,
                     \<lparr>fName = ''Name'', fType = BasicType ''str''\<rparr>,
                     \<lparr>fName = ''TaxID'', fType = BasicType ''str''\<rparr>,
                     \<lparr>fName = ''_nav_Person'', fType = ArrayType (BasicType ''Person'')\<rparr>]\<rparr>
       = [''person: Optional[List[Person]] = None'']"
    using T [THEN conjunct2, THEN conjunct1] unfolding g by simp
  show ?thesis using g 1 2 by blast
qed

theorem company_navigation_field_is_person:
  "CompileModel refHelpers companyModel companyRegistry =
     Inr \<lparr>sName = ''Company'',
          sFields = [\<lparr>fName = ''ID'', fType = BasicType ''int''\<rparr>,
                     \<lparr>fName = ''Name'', fType = BasicType ''str''\<rparr>,
                     \<lparr>fName = ''TaxID'', fType = BasicType ''str''\<rparr>,
                     \<lparr>fName = ''_nav_Person'', fType = ArrayType (BasicType ''Person'')\<rparr>]\<rparr>
   \<and> navFieldLines refHelpers
         \<lparr>sName = ''Company'',
          sFields = [\<lparr>fName = ''ID'', fType = BasicType ''int''\<rparr>,
                     \<lparr>fName = ''Name'', fType = BasicType ''str''\<rparr>,
                     \<lparr>fName = ''TaxID'', fType = BasicType ''str''\<rparr>,
                     \<lparr>fName = ''_nav_Person'', fType = ArrayType (BasicType ''Person'')\<rparr>]\<rparr>
       = [''person: Optional[List[Person]] = None'']
   \<and> ''person: Optional[List[Person]] = None'' \<noteq> ''persons: Optional[List[Person]] = None''
   \<and> ''    persons: Optional[List[Person]] = None''
       \<notin> set (buf (generateModelBuilder refHelpers companyStruct hintsConfig plainMorpheConfig
                 companyRegistry))
   \<and> ''    person: Optional[List[Person]] = None''
       \<in> set (buf (generateModelBuilder refHelpers companyStruct hintsConfig plainMorpheConfig
                 companyRegistry))"
  by code_simp

section \<open>The order of the registry\<close>

text \<open>
  Claim C7. The output depends on the order in which \<open>resolvePolymorphicThrough\<close> visits
  the map of models. \<open>blogRegistry\<close> and \<open>blogRegistrySwapped\<close> are the same map, with
  distinct keys, listed in two visit orders. \<open>Comment\<close> and \<open>Review\<close> both have a
  polymorphic relation \<open>Commentable\<close>, and \<open>Post\<close> reaches its comments through
  \<open>Commentable\<close>: the first order gives the navigation field of \<open>Post\<close> the type
  \<open>List[Comment]\<close>, the second \<open>List[Review]\<close>, and the two declarations of \<open>Post\<close>
  differ.
\<close>

theorem through_depends_on_visit_order:
  "mset (GetAllModels blogRegistry) = mset (GetAllModels blogRegistrySwapped)
   \<and> distinct (map fst (GetAllModels blogRegistry))
   \<and> map_of (GetAllModels blogRegistry) ''Post'' = Some postModel
   \<and> map_of (GetAllModels blogRegistrySwapped) ''Post'' = Some postModel
   \<and> resolvePolymorphicThrough ''Commentable'' blogRegistry = Inr ''Comment''
   \<and> resolvePolymorphicThrough ''Commentable'' blogRegistrySwapped = Inr ''Review''
   \<and> CompileModel refHelpers postModel blogRegistry
       = Inr \<lparr>sName = ''Post'',
              sFields = [\<lparr>fName = ''ID'', fType = BasicType ''int''\<rparr>,
                         \<lparr>fName = ''_nav_Comment'', fType = ArrayType (BasicType ''Comment'')\<rparr>]\<rparr>
   \<and> CompileModel refHelpers postModel blogRegistrySwapped
       = Inr \<lparr>sName = ''Post'',
              sFields = [\<lparr>fName = ''ID'', fType = BasicType ''int''\<rparr>,
                         \<lparr>fName = ''_nav_Comment'', fType = ArrayType (BasicType ''Review'')\<rparr>]\<rparr>
   \<and> (case CompileAllModels refHelpers hintsConfig plainMorpheConfig blogRegistry of
         Inl e \<Rightarrow> None | Inr contents \<Rightarrow> contents ''Post'')
       = Some (concat (map (\<lambda>l. l @ [CHR 0x0A])
           [''from pydantic import BaseModel'',
            ''from typing import List, Optional, TYPE_CHECKING'',
            [],
            ''if TYPE_CHECKING:'',
            ''    from .comment import Comment'',
            [],
            ''class Post(BaseModel):'',
            ''    '' @ tripleQuote @ ''Post model.'' @ tripleQuote,
            ''    id: int'',
            ''    comment: Optional[List[Comment]] = None'']))
   \<and> (case CompileAllModels refHelpers hintsConfig plainMorpheConfig blogRegistrySwapped of
         Inl e \<Rightarrow> None | Inr contents \<Rightarrow> contents ''Post'')
       = Some (concat (map (\<lambda>l. l @ [CHR 0x0A])
           [''from pydantic import BaseModel'',
            ''from typing import List, Optional, TYPE_CHECKING'',
            [],
            ''if TYPE_CHECKING:'',
            ''    from .review import Review'',
            [],
            ''class Post(BaseModel):'',
            ''    '' @ tripleQuote @ ''Post model.'' @ tripleQuote,
            ''    id: int'',
            ''    comment: Optional[List[Review]] = None'']))"
proof -
  have 1: "mset (GetAllModels blogRegistry) = mset (GetAllModels blogRegistrySwapped)"
    by (simp add: GetAllModels_def blogRegistry_def blogRegistrySwapped_def)
  have 2: "distinct (map fst (GetAllModels blogRegistry))"
    "map_of (GetAllModels blogRegistry) ''Post'' = Some postModel"
    "map_of (GetAllModels blogRegistrySwapped) ''Post'' = Some postModel"
    by (simp_all add: GetAllModels_def blogRegistry_def blogRegistrySwapped_def)
  have 3: "resolvePolymorphicThrough ''Commentable'' blogRegistry = Inr ''Comment''"
    "resolvePolymorphicThrough ''Commentable'' blogRegistrySwapped = Inr ''Review''"
    "CompileModel refHelpers postModel blogRegistry
       = Inr \<lparr>sName = ''Post'',
              sFields = [\<lparr>fName = ''ID'', fType = BasicType ''int''\<rparr>,
                         \<lparr>fName = ''_nav_Comment'', fType = ArrayType (BasicType ''Comment'')\<rparr>]\<rparr>"
    "CompileModel refHelpers postModel blogRegistrySwapped
       = Inr \<lparr>sName = ''Post'',
              sFields = [\<lparr>fName = ''ID'', fType = BasicType ''int''\<rparr>,
                         \<lparr>fName = ''_nav_Comment'', fType = ArrayType (BasicType ''Review'')\<rparr>]\<rparr>"
    by code_simp+
  have 4: "(case CompileAllModels refHelpers hintsConfig plainMorpheConfig blogRegistry of
         Inl e \<Rightarrow> None | Inr contents \<Rightarrow> contents ''Post'')
       = Some (concat (map (\<lambda>l. l @ [CHR 0x0A])
           [''from pydantic import BaseModel'',
            ''from typing import List, Optional, TYPE_CHECKING'',
            [],
            ''if TYPE_CHECKING:'',
            ''    from .comment import Comment'',
            [],
            ''class Post(BaseModel):'',
            ''    '' @ tripleQuote @ ''Post model.'' @ tripleQuote,
            ''    id: int'',
            ''    comment: Optional[List[Comment]] = None'']))"
    by code_simp
  have 5: "(case CompileAllModels refHelpers hintsConfig plainMorpheConfig blogRegistrySwapped of
         Inl e \<Rightarrow> None | Inr contents \<Rightarrow> contents ''Post'')
       = Some (concat (map (\<lambda>l. l @ [CHR 0x0A])
           [''from pydantic import BaseModel'',
            ''from typing import List, Optional, TYPE_CHECKING'',
            [],
            ''if TYPE_CHECKING:'',
            ''    from .review import Review'',
            [],
            ''class Post(BaseModel):'',
            ''    '' @ tripleQuote @ ''Post model.'' @ tripleQuote,
            ''    id: int'',
            ''    comment: Optional[List[Review]] = None'']))"
    by code_simp
  show ?thesis by (intro conjI) (rule 1 2 3 4 5)+
qed

section \<open>White space in type names\<close>

text \<open>
  \<open>Fields\<close> on ASCII white space, on the UTF-8 encodings of U+00A0, U+2003 and U+3000,
  and on bytes from \<open>0x80\<close> on that encode no white space.
\<close>

lemma Fields_ascii: "Fields ''  a b   cd '' = [''a'', ''b'', ''cd'']"
  by code_simp

lemma Fields_no_break_space: "Fields [CHR ''a'', CHR 0xC2, CHR 0xA0, CHR ''b''] = [''a'', ''b'']"
  by code_simp

lemma Fields_lone_continuation_byte:
  "Fields [CHR ''a'', CHR 0xA0, CHR ''b''] = [[CHR ''a'', CHR 0xA0, CHR ''b'']]"
  by code_simp

lemma Fields_wide_spaces:
  "Fields [CHR ''a'', CHR 0xE2, CHR 0x80, CHR 0x83, CHR 0xE3, CHR 0x80, CHR 0x80, CHR ''b'',
           CHR 0xE2, CHR 0x80]
     = [''a'', [CHR ''b'', CHR 0xE2, CHR 0x80]]"
  by code_simp

lemma extractAllInnerTypes_union:
  "extractAllInnerTypes
     (''Optional[Union['' @ [CHR 0x27] @ ''Person'' @ [CHR 0x27] @ '', ''
        @ [CHR 0x27] @ ''Company'' @ [CHR 0x27] @ '']]'')
     = [''Optional'', ''Union'', ''Person'', ''Company'']"
  by code_simp

end
